theory Spec2Isabelle
  imports
    Complex_Main
    "HOL-Library.Sublist"
    "HOL-Library.Char_ord"
    "HOL-Library.List_Lexorder"
    "HOL-Library.AList"
begin

section \<open>Python values used by the agent\<close>

text \<open>
  The result of \<^verbatim>\<open>json.loads\<close>: a JSON document as a Python object. A dict is an
  association list looked up with \<open>map_of\<close>. Floats are the reals they denote.
\<close>

datatype json =
    JNull
  | JBool bool
  | JInt int
  | JFloat real
  | JStr string
  | JList "json list"
  | JObj "(string \<times> json) list"

text \<open>
  Exceptions that are instances of \<^verbatim>\<open>Exception\<close>; the text is \<^verbatim>\<open>str(exc)\<close>.
  A callable that raises returns \<open>Inl\<close> of one of these. The classes are those the
  code tells apart: \<^verbatim>\<open>JSONDecodeError\<close>, which \<open>execute\<close> catches around the
  decoding; \<open>ValueError\<close>, a \<^verbatim>\<open>ValueError\<close> that is no \<^verbatim>\<open>JSONDecodeError\<close>;
  \<open>RuntimeError\<close>, with its subclass \<^verbatim>\<open>RecursionError\<close>, which the command line
  catches around a run; and every other exception.
\<close>

datatype exn =
    ValueError string
  | JSONDecodeError string
  | RuntimeError string
  | OtherError string

fun exn_str :: "exn \<Rightarrow> string" where
  "exn_str (ValueError m) = m"
| "exn_str (JSONDecodeError m) = m"
| "exn_str (RuntimeError m) = m"
| "exn_str (OtherError m) = m"

definition digit_char :: "nat \<Rightarrow> char" where
  "digit_char d = char_of (of_char (CHR ''0'') + d)"

function str_nat :: "nat \<Rightarrow> string" where
  "str_nat n = (if n < 10 then [digit_char n] else str_nat (n div 10) @ [digit_char (n mod 10)])"
  by pat_completeness auto
termination
  by (relation "measure (\<lambda>n. n)") auto

declare str_nat.simps [simp del]

definition str_int :: "int \<Rightarrow> string" where
  "str_int i = (if i < 0 then CHR ''-'' # str_nat (nat (- i)) else str_nat (nat i))"

text \<open>
  \<^verbatim>\<open>str(x)\<close> on a JSON value. The text of a float and of a container is the
  interpreter's \<^verbatim>\<open>repr\<close>, taken as the parameter \<open>repr\<close>.
\<close>

fun py_str :: "(json \<Rightarrow> string) \<Rightarrow> json \<Rightarrow> string" where
  "py_str repr (JStr s) = s"
| "py_str repr JNull = ''None''"
| "py_str repr (JBool b) = (if b then ''True'' else ''False'')"
| "py_str repr (JInt i) = str_int i"
| "py_str repr v = repr v"

text \<open>\<^verbatim>\<open>bool(x)\<close> on a JSON value.\<close>

fun py_bool :: "json \<Rightarrow> bool" where
  "py_bool JNull = False"
| "py_bool (JBool b) = b"
| "py_bool (JInt i) = (i \<noteq> 0)"
| "py_bool (JFloat r) = (r \<noteq> 0)"
| "py_bool (JStr s) = (s \<noteq> [])"
| "py_bool (JList xs) = (xs \<noteq> [])"
| "py_bool (JObj kvs) = (kvs \<noteq> [])"

fun is_dict :: "json \<Rightarrow> bool" where
  "is_dict (JObj kvs) = True"
| "is_dict v = False"

text \<open>\<^verbatim>\<open>d.get(key)\<close> and \<^verbatim>\<open>d.get(key, default)\<close> on a dict; \<open>None\<close> is \<open>JNull\<close>.\<close>

fun dict_get :: "json \<Rightarrow> string \<Rightarrow> json \<Rightarrow> json" where
  "dict_get (JObj kvs) k dflt = (case map_of kvs k of Some v \<Rightarrow> v | None \<Rightarrow> dflt)"
| "dict_get v k dflt = dflt"

text \<open>
  \<^verbatim>\<open>str.strip()\<close> on a text of code points below 256, whose whitespace is tab,
  line feed, vertical tab, form feed, carriage return, the four separators 28 to 31, the
  space, the next-line character 133 and the no-break space 160. On other text the
  library decides what whitespace is: the code is modelled with \<open>py_strip\<close> of the
  library below, and this function serves the examples.
\<close>

definition is_latin1_space :: "char \<Rightarrow> bool" where
  "is_latin1_space c =
     (let n = (of_char c :: nat) in (9 \<le> n \<and> n \<le> 13) \<or> (28 \<le> n \<and> n \<le> 32) \<or> n = 133 \<or> n = 160)"

definition latin1_strip :: "string \<Rightarrow> string" where
  "latin1_strip s = rev (dropWhile is_latin1_space (rev (dropWhile is_latin1_space s)))"

text \<open>
  The library functions the code calls and this development does not define:
  \<^verbatim>\<open>json.loads\<close>, which returns the document or raises, a
  \<^verbatim>\<open>JSONDecodeError\<close> for a text that is no JSON document and other exceptions
  besides (\<^verbatim>\<open>ValueError\<close> for an integer of too many digits,
  \<^verbatim>\<open>RecursionError\<close> for a document nested too deep);
  \<^verbatim>\<open>json.dumps(..., ensure_ascii=True, indent=2)\<close>; \<^verbatim>\<open>repr\<close>;
  \<^verbatim>\<open>int\<close> of a string; and \<^verbatim>\<open>str.strip()\<close>.
\<close>

record stdlib =
  json_loads :: "string \<Rightarrow> exn + json"
  json_dumps :: "json \<Rightarrow> string"
  py_repr :: "json \<Rightarrow> string"
  int_of_str :: "string \<Rightarrow> exn + int"
  py_strip :: "string \<Rightarrow> string"

text \<open>\<^verbatim>\<open>int(x)\<close> on a JSON value: a float is truncated towards zero.\<close>

fun py_int :: "stdlib \<Rightarrow> json \<Rightarrow> exn + int" where
  "py_int lib (JInt i) = Inr i"
| "py_int lib (JBool b) = Inr (if b then 1 else 0)"
| "py_int lib (JFloat r) = Inr (if 0 \<le> r then \<lfloor>r\<rfloor> else \<lceil>r\<rceil>)"
| "py_int lib (JStr s) = int_of_str lib s"
| "py_int lib v = Inl (OtherError ''int() argument must be a string, a bytes-like object or a real number'')"

text \<open>\<^verbatim>\<open>json.dumps({"ok": True, "plan_size": n})\<close>.\<close>

definition dumps_ok :: "nat \<Rightarrow> string" where
  \<open>dumps_ok n = ''{"ok": true, "plan_size": '' @ str_int (int n) @ ''}''\<close>

section \<open>tools.py: sandbox, approval policy and the tool context\<close>

datatype SandboxMode = READ_ONLY | WORKSPACE_WRITE | DANGER_FULL_ACCESS

datatype ApprovalPolicy = ON_REQUEST | ALWAYS | NEVER

text \<open>
  A \<^verbatim>\<open>pathlib\<close> path: whether it is anchored at the root, and its components.
  A resolved path is absolute and is written as its list of components.
\<close>

datatype PurePath = PurePath (is_absolute: bool) (parts: "string list")

fun split_on :: "char \<Rightarrow> string \<Rightarrow> string list" where
  "split_on sep [] = [[]]"
| "split_on sep (c # cs) =
     (if c = sep then [] # split_on sep cs
      else (case split_on sep cs of [] \<Rightarrow> [[c]] | seg # segs \<Rightarrow> (c # seg) # segs))"

text \<open>
  \<^verbatim>\<open>Path(raw)\<close> on POSIX: empty components and \<^verbatim>\<open>.\<close> components are
  dropped, \<^verbatim>\<open>..\<close> components are kept.
\<close>

definition Path :: "string \<Rightarrow> PurePath" where
  "Path raw = PurePath (raw \<noteq> [] \<and> hd raw = CHR ''/'')
                (filter (\<lambda>seg. seg \<noteq> [] \<and> seg \<noteq> ''.'') (split_on (CHR ''/'') raw))"

text \<open>
  What the operating system decides: \<^verbatim>\<open>expanduser\<close> (the home directory) and
  \<^verbatim>\<open>resolve\<close> of an absolute path (the symbolic links of the file system).
\<close>

record os_fs =
  expanduser :: "PurePath \<Rightarrow> PurePath"
  resolve :: "string list \<Rightarrow> string list"

text \<open>\<open>resolve\<close> on a file system without symbolic links.\<close>

fun resolve_step :: "string list \<Rightarrow> string \<Rightarrow> string list" where
  "resolve_step acc seg =
     (if seg = ''..'' then butlast acc else if seg = ''.'' \<or> seg = [] then acc else acc @ [seg])"

definition resolve_nolinks :: "string list \<Rightarrow> string list" where
  "resolve_nolinks ps = foldl resolve_step [] ps"

definition plain_fs :: os_fs where
  "plain_fs = \<lparr> expanduser = (\<lambda>p. p), resolve = resolve_nolinks \<rparr>"

record plan_item =
  step :: string
  status :: string

text \<open>
  The tool context. \<open>'w\<close> is the world outside the conversation (file system,
  subprocesses, the user at the console). The approval callback acts on it and may raise.
\<close>

record 'w ToolContext =
  cwd :: "string list"
  ask_approval :: "string \<Rightarrow> string \<Rightarrow> 'w \<Rightarrow> (exn + bool) \<times> 'w"
  sandbox_mode :: SandboxMode
  approval_policy :: ApprovalPolicy
  plan :: "plan_item list"

text \<open>\<^verbatim>\<open>target.relative_to(base)\<close> succeeds when the components of \<open>base\<close> start \<open>target\<close>.\<close>

definition is_within :: "string list \<Rightarrow> string list \<Rightarrow> bool" where
  "is_within base target = prefix base target"

definition resolve_path :: "os_fs \<Rightarrow> 'w ToolContext \<Rightarrow> string \<Rightarrow> exn + string list" where
  "resolve_path os ctx raw_path =
     (let candidate = expanduser os (Path raw_path);
          resolved = (if is_absolute candidate then resolve os (parts candidate)
                      else resolve os (cwd ctx @ parts candidate))
      in if sandbox_mode ctx \<noteq> DANGER_FULL_ACCESS \<and> \<not> is_within (cwd ctx) resolved
         then Inl (ValueError (''path escapes workspace: '' @ raw_path))
         else Inr resolved)"

text \<open>
  The specification's "path after resolving relative and symlink segments against the workspace
  root": a relative path is joined to the root, and the result is resolved.
\<close>

definition resolved_against :: "os_fs \<Rightarrow> string list \<Rightarrow> string \<Rightarrow> string list" where
  "resolved_against os base raw =
     (let p = expanduser os (Path raw)
      in resolve os (if is_absolute p then parts p else base @ parts p))"

text \<open>
  A tool. Its handler receives the context and the parsed arguments, acts on the world,
  and returns text or raises; of the context it writes the plan only, which it
  returns.
\<close>

record 'w Tool =
  name :: string
  description :: string
  parameters :: json
  handler :: "'w ToolContext \<Rightarrow> json \<Rightarrow> 'w \<Rightarrow> (exn + string) \<times> plan_item list \<times> 'w"
  mutating :: bool

text \<open>The registry: its context (the field \<^verbatim>\<open>context\<close>) and the dict \<^verbatim>\<open>_tools\<close>, in insertion order.\<close>

record 'w ToolRegistry =
  reg_context :: "'w ToolContext"
  tools :: "(string \<times> 'w Tool) list"

definition ToolRegistry :: "'w ToolContext \<Rightarrow> 'w ToolRegistry" where
  "ToolRegistry ctx = \<lparr> reg_context = ctx, tools = [] \<rparr>"

definition register :: "'w ToolRegistry \<Rightarrow> 'w Tool \<Rightarrow> 'w ToolRegistry" where
  "register reg tool = reg \<lparr> tools := AList.update (name tool) tool (tools reg) \<rparr>"

definition list_tools :: "'w ToolRegistry \<Rightarrow> 'w Tool list" where
  "list_tools reg = map (\<lambda>n. the (map_of (tools reg) n)) (sort (map fst (tools reg)))"

definition list_tool_names :: "'w ToolRegistry \<Rightarrow> string list" where
  "list_tool_names reg = map name (list_tools reg)"

definition as_openai_tools :: "'w ToolRegistry \<Rightarrow> (string \<times> string \<times> json) list" where
  "as_openai_tools reg = map (\<lambda>tool. (name tool, description tool, parameters tool)) (list_tools reg)"

text \<open>
  The last statement of \<open>execute\<close>: the handler is called inside
  \<^verbatim>\<open>try ... except Exception\<close>. What the handler did to the plan and to the world
  before raising stays done.
\<close>

definition call_handler ::
  "'w ToolRegistry \<Rightarrow> 'w Tool \<Rightarrow> json \<Rightarrow> 'w \<Rightarrow> (exn + string) \<times> 'w ToolRegistry \<times> 'w" where
  "call_handler reg tool arguments w =
     (case handler tool (reg_context reg) arguments w of
        (Inr text, plan', w') \<Rightarrow> (Inr text, reg \<lparr> reg_context := (reg_context reg) \<lparr> plan := plan' \<rparr> \<rparr>, w')
      | (Inl exc, plan', w') \<Rightarrow>
          (Inr (''Tool execution failed: '' @ exn_str exc),
           reg \<lparr> reg_context := (reg_context reg) \<lparr> plan := plan' \<rparr> \<rparr>, w'))"

text \<open>
  \<open>execute\<close> returns the result (\<open>Inl\<close> when an exception leaves it), the registry
  with the context as the handler left it, and the world.
\<close>

definition execute ::
  "stdlib \<Rightarrow> 'w ToolRegistry \<Rightarrow> string \<Rightarrow> string \<Rightarrow> 'w \<Rightarrow> (exn + string) \<times> 'w ToolRegistry \<times> 'w" where
  "execute lib reg nm arguments_json w =
     (case map_of (tools reg) nm of
        None \<Rightarrow> (Inr (''Unknown tool: '' @ nm), reg, w)
      | Some tool \<Rightarrow>
          (case json_loads lib (if arguments_json = [] then ''{}'' else arguments_json) of
             Inl (JSONDecodeError msg) \<Rightarrow> (Inr (''Invalid tool arguments JSON: '' @ msg), reg, w)
           | Inl exc \<Rightarrow> (Inl exc, reg, w)
           | Inr arguments \<Rightarrow>
               if \<not> is_dict arguments then (Inr ''Tool arguments must be a JSON object.'', reg, w)
               else if mutating tool then
                 (if sandbox_mode (reg_context reg) = READ_ONLY
                    then (Inr ''blocked by sandbox policy: read-only'', reg, w)
                  else if approval_policy (reg_context reg) = NEVER
                    then (Inr ''blocked by approval policy: never'', reg, w)
                  else if approval_policy (reg_context reg) = ON_REQUEST
                    then (case ask_approval (reg_context reg) nm (take 600 (json_dumps lib arguments)) w of
                            (Inl exc, w') \<Rightarrow> (Inl exc, reg, w')
                          | (Inr ok, w') \<Rightarrow>
                              if \<not> ok then (Inr ''Rejected by user.'', reg, w')
                              else call_handler reg tool arguments w')
                  else call_handler reg tool arguments w)
               else call_handler reg tool arguments w))"

text \<open>The loop of \<^verbatim>\<open>_update_plan\<close> over the items, with the list built so far.\<close>

fun normalize_items :: "stdlib \<Rightarrow> json list \<Rightarrow> plan_item list \<Rightarrow> string + plan_item list" where
  "normalize_items lib [] normalized = Inr normalized"
| "normalize_items lib (item # rest) normalized =
     (if \<not> is_dict item then Inl ''each plan item must be an object''
      else
        let step' = py_strip lib (py_str (py_repr lib) (dict_get item ''step'' (JStr [])));
            status' = py_strip lib (py_str (py_repr lib) (dict_get item ''status'' (JStr [])))
        in if step' = [] then Inl ''plan step cannot be empty''
           else if status' \<notin> {''pending'', ''in_progress'', ''completed''}
             then Inl ''status must be pending | in_progress | completed''
           else normalize_items lib rest (normalized @ [\<lparr> step = step', status = status' \<rparr>]))"

definition update_plan ::
  "stdlib \<Rightarrow> 'w ToolContext \<Rightarrow> json \<Rightarrow> 'w \<Rightarrow> (exn + string) \<times> plan_item list \<times> 'w" where
  \<open>update_plan lib ctx args w =
     (case dict_get args ''plan'' JNull of
        JList items \<Rightarrow>
          (case normalize_items lib items [] of
             Inl msg \<Rightarrow> (Inr msg, plan ctx, w)
           | Inr normalized \<Rightarrow>
               (Inr (dumps_ok (length normalized)), normalized, w))
      | _ \<Rightarrow> (Inr ''plan must be a list of {step, status}'', plan ctx, w))\<close>

definition update_plan_tool :: "stdlib \<Rightarrow> json \<Rightarrow> 'w Tool" where
  "update_plan_tool lib schema =
     \<lparr> name = ''update_plan'',
       description = ''Create or update a lightweight task plan for the current session.'',
       parameters = schema, handler = update_plan lib, mutating = False \<rparr>"

section \<open>subagents.py: the tools of a subagent\<close>

definition sub_context :: "'w ToolContext \<Rightarrow> 'w ToolContext" where
  "sub_context parent_context =
     \<lparr> cwd = cwd parent_context, ask_approval = ask_approval parent_context,
       sandbox_mode = READ_ONLY, approval_policy = NEVER, plan = [] \<rparr>"

fun register_read_only :: "'w ToolRegistry \<Rightarrow> 'w Tool list \<Rightarrow> 'w ToolRegistry" where
  "register_read_only registry [] = registry"
| "register_read_only registry (tool # rest) =
     (if mutating tool then register_read_only registry rest
      else if name tool \<in> {''update_plan''} then register_read_only registry rest
      else register_read_only (register registry tool) rest)"

definition build_subagent_tools :: "'w ToolRegistry \<Rightarrow> 'w ToolRegistry" where
  "build_subagent_tools parent_tools =
     register_read_only (ToolRegistry (sub_context (reg_context parent_tools))) (list_tools parent_tools)"

section \<open>plugins.py: declared tools and their registration\<close>

definition is_word_char :: "char \<Rightarrow> bool" where
  "is_word_char c =
     (let n = (of_char c :: nat)
      in (65 \<le> n \<and> n \<le> 90) \<or> (97 \<le> n \<and> n \<le> 122) \<or> (48 \<le> n \<and> n \<le> 57) \<or> n = 95)"

text \<open>\<^verbatim>\<open>re.sub(r"[^A-Za-z0-9_]+", "_", value)\<close>: every maximal run of other characters becomes one underscore.\<close>

function sub_non_word :: "string \<Rightarrow> string" where
  "sub_non_word [] = []"
| "sub_non_word (c # cs) =
     (if is_word_char c then c # sub_non_word cs
      else CHR ''_'' # sub_non_word (dropWhile (\<lambda>d. \<not> is_word_char d) cs))"
  by pat_completeness auto
termination
  by (relation "measure length") (auto simp: length_dropWhile_le less_Suc_eq_le)

definition lower_char :: "char \<Rightarrow> char" where
  "lower_char c = (let n = (of_char c :: nat) in if 65 \<le> n \<and> n \<le> 90 then char_of (n + 32) else c)"

definition strip_char :: "char \<Rightarrow> string \<Rightarrow> string" where
  "strip_char x s = rev (dropWhile (\<lambda>c. c = x) (rev (dropWhile (\<lambda>c. c = x) s)))"

text \<open>\<^verbatim>\<open>_sanitize_name\<close>; the two modules differ in the name given to an empty result.\<close>

definition sanitize_name_or :: "string \<Rightarrow> string \<Rightarrow> string" where
  "sanitize_name_or fallback v =
     (let s = map lower_char (strip_char (CHR ''_'') (sub_non_word v)) in if s = [] then fallback else s)"

definition sanitize_name :: "string \<Rightarrow> string" where
  "sanitize_name = sanitize_name_or ''item''"

record PluginToolSpec =
  ts_plugin_name :: string
  ts_name :: string
  ts_description :: string
  ts_parameters :: json
  ts_mutating :: bool
  ts_timeout_sec :: int
  ts_command :: "string option"
  ts_argv :: "string list option"
  ts_workdir :: "string list"

text \<open>The body of the loop of \<^verbatim>\<open>_parse_tools\<close>, for one entry of the manifest.\<close>

definition parse_tool_item :: "stdlib \<Rightarrow> string list \<Rightarrow> string \<Rightarrow> json \<Rightarrow> exn + PluginToolSpec" where
  "parse_tool_item lib manifest_dir plugin_name item =
     (if \<not> is_dict item then Inl (ValueError ''tool entry must be an object'')
      else
        let nm = py_strip lib (py_str (py_repr lib) (dict_get item ''name'' (JStr [])))
        in if nm = [] then Inl (ValueError ''tool.name is required'')
        else
          let d = py_strip lib (py_str (py_repr lib) (dict_get item ''description'' (JStr [])));
              description' = (if d = [] then ''Plugin tool `'' @ nm @ ''`'' else d);
              parameters' = dict_get item ''parameters'' (JObj [])
          in if \<not> is_dict parameters' then Inl (ValueError ''tool.parameters must be an object'')
          else
            let c = py_strip lib (py_str (py_repr lib) (dict_get item ''command'' (JStr [])));
                command = (if c = [] then None else Some c);
                argv = (case dict_get item ''argv'' JNull of
                          JList vs \<Rightarrow> Some (map (py_str (py_repr lib)) vs)
                        | _ \<Rightarrow> None);
                no_argv = (argv = None \<or> argv = Some [])
            in if command = None \<and> no_argv
                 then Inl (ValueError (''tool `'' @ nm @ ''` must provide `command` or `argv`''))
               else if command \<noteq> None \<and> \<not> no_argv
                 then Inl (ValueError (''tool `'' @ nm @ ''` cannot provide both `command` and `argv`''))
               else
                 (case py_int lib (dict_get item ''timeout_sec'' (JInt 120)) of
                    Inl exc \<Rightarrow> Inl exc
                  | Inr t \<Rightarrow>
                      Inr \<lparr> ts_plugin_name = plugin_name, ts_name = nm, ts_description = description',
                            ts_parameters = parameters',
                            ts_mutating = py_bool (dict_get item ''mutating'' (JBool False)),
                            ts_timeout_sec = max 1 (min t 1800),
                            ts_command = command, ts_argv = argv, ts_workdir = manifest_dir \<rparr>))"

fun parse_tool_items :: "stdlib \<Rightarrow> string list \<Rightarrow> string \<Rightarrow> json list \<Rightarrow> exn + PluginToolSpec list" where
  "parse_tool_items lib manifest_dir plugin_name [] = Inr []"
| "parse_tool_items lib manifest_dir plugin_name (item # rest) =
     (case parse_tool_item lib manifest_dir plugin_name item of
        Inl exc \<Rightarrow> Inl exc
      | Inr spec \<Rightarrow>
          (case parse_tool_items lib manifest_dir plugin_name rest of
             Inl exc \<Rightarrow> Inl exc
           | Inr specs \<Rightarrow> Inr (spec # specs)))"

definition parse_tools :: "stdlib \<Rightarrow> json \<Rightarrow> string list \<Rightarrow> string \<Rightarrow> exn + PluginToolSpec list" where
  "parse_tools lib payload manifest_dir plugin_name =
     (case dict_get payload ''tools'' (JList []) of
        JList raw_tools \<Rightarrow> parse_tool_items lib manifest_dir plugin_name raw_tools
      | _ \<Rightarrow> Inl (ValueError ''`tools` must be a list''))"

text \<open>
  A manifest file as the loader finds it: the directory that holds it, and the outcome
  of reading it and parsing it as JSON. The parsers of commands and of skills are
  parameters; their results are carried along.
\<close>

record manifest_file =
  mf_dir :: "string list"
  mf_payload :: "exn + json"

record ('c, 's) ParsedManifest =
  pm_plugin_name :: string
  pm_tools :: "PluginToolSpec list"
  pm_commands :: "'c list"
  pm_skills :: "'s list"

record ('c, 's) plugin_parsers =
  parse_commands :: "json \<Rightarrow> string \<Rightarrow> exn + 'c list"
  parse_skills :: "json \<Rightarrow> string list \<Rightarrow> string \<Rightarrow> exn + 's list"

definition parse_manifest ::
  "stdlib \<Rightarrow> ('c, 's) plugin_parsers \<Rightarrow> manifest_file \<Rightarrow> exn + ('c, 's) ParsedManifest" where
  "parse_manifest lib ps mf =
     (case mf_payload mf of
        Inl exc \<Rightarrow> Inl exc
      | Inr payload \<Rightarrow>
          if \<not> is_dict payload then Inl (ValueError ''manifest root must be an object'')
          else
            let parent_name = (if mf_dir mf = [] then [] else last (mf_dir mf));
                n = py_strip lib (py_str (py_repr lib) (dict_get payload ''name'' (JStr parent_name)));
                plugin_name = (if n = [] then parent_name else n)
            in (case parse_tools lib payload (mf_dir mf) plugin_name of
                  Inl exc \<Rightarrow> Inl exc
                | Inr tools' \<Rightarrow>
                    (case parse_commands ps payload plugin_name of
                       Inl exc \<Rightarrow> Inl exc
                     | Inr commands' \<Rightarrow>
                         (case parse_skills ps payload (mf_dir mf) plugin_name of
                            Inl exc \<Rightarrow> Inl exc
                          | Inr skills' \<Rightarrow>
                              Inr \<lparr> pm_plugin_name = plugin_name, pm_tools = tools',
                                    pm_commands = commands', pm_skills = skills' \<rparr>))))"

record ('c, 's) PluginLoadResult =
  tool_names :: "string list"
  commands :: "'c list"
  skills :: "'s list"
  errors :: "string list"

definition path_str :: "string list \<Rightarrow> string" where
  "path_str ps = (if ps = [] then ''/'' else concat (map (\<lambda>p. CHR ''/'' # p) ps))"

definition namespaced_name :: "PluginToolSpec \<Rightarrow> string" where
  "namespaced_name spec = sanitize_name (ts_plugin_name spec) @ ''__'' @ sanitize_name (ts_name spec)"

text \<open>
  The tool registered for a declaration. Its handler runs the declared command in a
  subprocess; \<open>build_tool_handler\<close> is a parameter.
\<close>

definition plugin_tool ::
  "(PluginToolSpec \<Rightarrow> 'w ToolContext \<Rightarrow> json \<Rightarrow> 'w \<Rightarrow> (exn + string) \<times> plan_item list \<times> 'w) \<Rightarrow>
   PluginToolSpec \<Rightarrow> 'w Tool" where
  "plugin_tool build_tool_handler spec =
     \<lparr> name = namespaced_name spec,
       description = ''[plugin:'' @ ts_plugin_name spec @ ''] '' @ ts_description spec,
       parameters = ts_parameters spec,
       handler = build_tool_handler spec,
       mutating = ts_mutating spec \<rparr>"

text \<open>
  The inner loop of \<^verbatim>\<open>load_plugins\<close> over the tools of one manifest. The state is
  the registry, the set \<^verbatim>\<open>existing_tool_names\<close> and the result.
\<close>

fun load_specs ::
  "(PluginToolSpec \<Rightarrow> 'w ToolContext \<Rightarrow> json \<Rightarrow> 'w \<Rightarrow> (exn + string) \<times> plan_item list \<times> 'w) \<Rightarrow>
   PluginToolSpec list \<Rightarrow>
   'w ToolRegistry \<times> string set \<times> ('c, 's) PluginLoadResult \<Rightarrow>
   'w ToolRegistry \<times> string set \<times> ('c, 's) PluginLoadResult" where
  "load_specs bh [] st = st"
| "load_specs bh (spec # rest) (registry, existing_tool_names, result) =
     (if namespaced_name spec \<in> existing_tool_names
      then load_specs bh rest
             (registry, existing_tool_names,
              result \<lparr> errors := errors result @ [''duplicate plugin tool ignored: '' @ namespaced_name spec] \<rparr>)
      else load_specs bh rest
             (register registry (plugin_tool bh spec),
              insert (namespaced_name spec) existing_tool_names,
              result \<lparr> tool_names := tool_names result @ [namespaced_name spec] \<rparr>))"

fun load_manifests ::
  "stdlib \<Rightarrow> ('c, 's) plugin_parsers \<Rightarrow>
   (PluginToolSpec \<Rightarrow> 'w ToolContext \<Rightarrow> json \<Rightarrow> 'w \<Rightarrow> (exn + string) \<times> plan_item list \<times> 'w) \<Rightarrow>
   manifest_file list \<Rightarrow>
   'w ToolRegistry \<times> string set \<times> ('c, 's) PluginLoadResult \<Rightarrow>
   'w ToolRegistry \<times> string set \<times> ('c, 's) PluginLoadResult" where
  "load_manifests lib ps bh [] st = st"
| "load_manifests lib ps bh (manifest # rest) (registry, existing_tool_names, result) =
     (case parse_manifest lib ps manifest of
        Inl exc \<Rightarrow>
          load_manifests lib ps bh rest
            (registry, existing_tool_names,
             result \<lparr> errors := errors result @
                [''invalid plugin manifest `'' @ path_str (mf_dir manifest @ [''apecode_plugin.json''])
                 @ ''`: '' @ exn_str exc] \<rparr>)
      | Inr parsed \<Rightarrow>
          (case load_specs bh (pm_tools parsed) (registry, existing_tool_names, result) of
             (registry', existing', result') \<Rightarrow>
               load_manifests lib ps bh rest
                 (registry', existing',
                  result' \<lparr> commands := commands result' @ pm_commands parsed,
                            skills := skills result' @ pm_skills parsed \<rparr>)))"

definition load_plugins ::
  "stdlib \<Rightarrow> ('c, 's) plugin_parsers \<Rightarrow>
   (PluginToolSpec \<Rightarrow> 'w ToolContext \<Rightarrow> json \<Rightarrow> 'w \<Rightarrow> (exn + string) \<times> plan_item list \<times> 'w) \<Rightarrow>
   'w ToolRegistry \<Rightarrow> manifest_file list \<Rightarrow> 'w ToolRegistry \<times> ('c, 's) PluginLoadResult" where
  "load_plugins lib ps bh registry manifests =
     (case load_manifests lib ps bh manifests
             (registry, set (list_tool_names registry),
              \<lparr> tool_names = [], commands = [], skills = [], errors = [] \<rparr>) of
        (registry', existing', result) \<Rightarrow> (registry', result))"

section \<open>mcp.py: tools offered by MCP servers\<close>

definition mcp_sanitize_name :: "string \<Rightarrow> string" where
  "mcp_sanitize_name = sanitize_name_or ''tool''"

record McpServerConfig =
  sc_name :: string
  sc_command :: string
  sc_args :: "string list"
  sc_timeout_sec :: int

text \<open>
  A tool as the server lists it. The description and the annotations may be
  \<^verbatim>\<open>None\<close>, and so may the hint inside the annotations.
\<close>

record McpAnnotations =
  readOnlyHint :: "bool option"

record McpToolInfo =
  mt_name :: string
  mt_description :: "string option"
  inputSchema :: json
  annotations :: "McpAnnotations option"

record McpBridge =
  mb_tool_names :: "string list"
  mb_errors :: "string list"

definition mcp_read_only :: "McpToolInfo \<Rightarrow> bool" where
  "mcp_read_only raw_tool =
     (case annotations raw_tool of
        None \<Rightarrow> False
      | Some a \<Rightarrow> (case readOnlyHint a of None \<Rightarrow> False | Some b \<Rightarrow> b))"

definition mcp_namespaced :: "McpServerConfig \<Rightarrow> string \<Rightarrow> string" where
  "mcp_namespaced server raw_name =
     ''mcp__'' @ mcp_sanitize_name (sc_name server) @ ''__'' @ mcp_sanitize_name raw_name"

text \<open>
  The tool registered for a listed tool. Its handler calls the server;
  \<open>call_tool\<close> is a parameter.
\<close>

definition mcp_tool ::
  "stdlib \<Rightarrow> (McpServerConfig \<Rightarrow> string \<Rightarrow> 'w ToolContext \<Rightarrow> json \<Rightarrow> 'w \<Rightarrow> (exn + string) \<times> plan_item list \<times> 'w) \<Rightarrow>
   McpServerConfig \<Rightarrow> McpToolInfo \<Rightarrow> 'w Tool" where
  "mcp_tool lib call_tool server raw_tool =
     (let raw_name = py_strip lib (mt_name raw_tool);
          d = py_strip lib (case mt_description raw_tool of None \<Rightarrow> ''None'' | Some t \<Rightarrow> t);
          schema = (if is_dict (inputSchema raw_tool) then inputSchema raw_tool
                    else JObj [(''type'', JStr ''object''), (''properties'', JObj [])])
      in \<lparr> name = mcp_namespaced server raw_name,
           description = (if d = [] then ''[mcp:'' @ sc_name server @ ''] call MCP tool `'' @ raw_name @ ''`'' else d),
           parameters = schema,
           handler = call_tool server raw_name,
           mutating = (\<not> mcp_read_only raw_tool) \<rparr>)"

fun load_server_tools ::
  "stdlib \<Rightarrow> (McpServerConfig \<Rightarrow> string \<Rightarrow> 'w ToolContext \<Rightarrow> json \<Rightarrow> 'w \<Rightarrow> (exn + string) \<times> plan_item list \<times> 'w) \<Rightarrow>
   McpServerConfig \<Rightarrow> McpToolInfo list \<Rightarrow> 'w ToolRegistry \<times> McpBridge \<Rightarrow> 'w ToolRegistry \<times> McpBridge" where
  "load_server_tools lib call_tool server [] st = st"
| "load_server_tools lib call_tool server (raw_tool # rest) (registry, bridge) =
     (if py_strip lib (mt_name raw_tool) = [] then load_server_tools lib call_tool server rest (registry, bridge)
      else load_server_tools lib call_tool server rest
             (register registry (mcp_tool lib call_tool server raw_tool),
              bridge \<lparr> mb_tool_names := mb_tool_names bridge @
                 [mcp_namespaced server (py_strip lib (mt_name raw_tool))] \<rparr>))"

text \<open>The loop over the servers of one configuration; \<open>list_server_tools\<close> asks a server for its tools.\<close>

fun load_servers ::
  "stdlib \<Rightarrow> (McpServerConfig \<Rightarrow> exn + McpToolInfo list) \<Rightarrow>
   (McpServerConfig \<Rightarrow> string \<Rightarrow> 'w ToolContext \<Rightarrow> json \<Rightarrow> 'w \<Rightarrow> (exn + string) \<times> plan_item list \<times> 'w) \<Rightarrow>
   McpServerConfig list \<Rightarrow> 'w ToolRegistry \<times> string set \<times> McpBridge \<Rightarrow> 'w ToolRegistry \<times> string set \<times> McpBridge" where
  "load_servers lib list_server_tools call_tool [] st = st"
| "load_servers lib list_server_tools call_tool (server # rest) (registry, seen_servers, bridge) =
     (if sc_name server \<in> seen_servers
      then load_servers lib list_server_tools call_tool rest (registry, seen_servers, bridge)
      else
        (case list_server_tools server of
           Inl exc \<Rightarrow>
             load_servers lib list_server_tools call_tool rest
               (registry, insert (sc_name server) seen_servers,
                bridge \<lparr> mb_errors := mb_errors bridge @
                   [''MCP server `'' @ sc_name server @ ''` unavailable: '' @ exn_str exc] \<rparr>)
         | Inr tools' \<Rightarrow>
             (case load_server_tools lib call_tool server tools' (registry, bridge) of
                (registry', bridge') \<Rightarrow>
                  load_servers lib list_server_tools call_tool rest
                    (registry', insert (sc_name server) seen_servers, bridge'))))"

text \<open>
  A configuration path as the loader finds it: \<open>None\<close> when no such file exists,
  otherwise the outcome of \<^verbatim>\<open>_parse_mcp_config\<close>.
\<close>

fun load_configs ::
  "stdlib \<Rightarrow> (McpServerConfig \<Rightarrow> exn + McpToolInfo list) \<Rightarrow>
   (McpServerConfig \<Rightarrow> string \<Rightarrow> 'w ToolContext \<Rightarrow> json \<Rightarrow> 'w \<Rightarrow> (exn + string) \<times> plan_item list \<times> 'w) \<Rightarrow>
   (string list \<times> (exn + McpServerConfig list) option) list \<Rightarrow>
   'w ToolRegistry \<times> string set \<times> McpBridge \<Rightarrow> 'w ToolRegistry \<times> string set \<times> McpBridge" where
  "load_configs lib list_server_tools call_tool [] st = st"
| "load_configs lib list_server_tools call_tool ((path, None) # rest) st =
     load_configs lib list_server_tools call_tool rest st"
| "load_configs lib list_server_tools call_tool ((path, Some (Inl exc)) # rest) (registry, seen_servers, bridge) =
     load_configs lib list_server_tools call_tool rest
       (registry, seen_servers,
        bridge \<lparr> mb_errors := mb_errors bridge @
           [''invalid MCP config `'' @ path_str path @ ''`: '' @ exn_str exc] \<rparr>)"
| "load_configs lib list_server_tools call_tool ((path, Some (Inr servers)) # rest) st =
     load_configs lib list_server_tools call_tool rest (load_servers lib list_server_tools call_tool servers st)"

definition load_mcp_tools ::
  "stdlib \<Rightarrow> (McpServerConfig \<Rightarrow> exn + McpToolInfo list) \<Rightarrow>
   (McpServerConfig \<Rightarrow> string \<Rightarrow> 'w ToolContext \<Rightarrow> json \<Rightarrow> 'w \<Rightarrow> (exn + string) \<times> plan_item list \<times> 'w) \<Rightarrow>
   'w ToolRegistry \<Rightarrow> (string list \<times> (exn + McpServerConfig list) option) list \<Rightarrow>
   'w ToolRegistry \<times> McpBridge" where
  "load_mcp_tools lib list_server_tools call_tool registry config_paths =
     (case load_configs lib list_server_tools call_tool config_paths
             (registry, {}, \<lparr> mb_tool_names = [], mb_errors = [] \<rparr>) of
        (registry', seen', bridge) \<Rightarrow> (registry', bridge))"

section \<open>agent.py: the tool-calling loop\<close>

datatype role = RoleSystem | RoleUser | RoleAssistant | RoleTool

text \<open>
  A tool call of an assistant message: \<^verbatim>\<open>{"id": ..., "function": {"name": ...,
  "arguments": ...}}\<close>. A key may be absent; a key that is present holds text.
\<close>

record FunctionCall =
  fn_name :: "string option"
  fn_arguments :: "string option"

record ToolCall =
  tc_id :: "string option"
  tc_function :: "FunctionCall option"

text \<open>
  A message of the conversation. The keys \<^verbatim>\<open>reasoning_content\<close> and
  \<^verbatim>\<open>tool_call_id\<close> are present when the field is \<open>Some\<close>, the key
  \<^verbatim>\<open>tool_calls\<close> when the list is not empty.
\<close>

record Message =
  role :: role
  content :: json
  reasoning_content :: "json option"
  tool_calls :: "ToolCall list"
  tool_call_id :: "string option"

text \<open>
  What the chat model returns: \<^verbatim>\<open>assistant.get("content")\<close>,
  \<^verbatim>\<open>assistant.get("reasoning_content")\<close> (\<open>JNull\<close> for \<^verbatim>\<open>None\<close>) and
  \<^verbatim>\<open>assistant.get("tool_calls") or []\<close>.
\<close>

record Completion =
  c_content :: json
  c_reasoning_content :: json
  c_tool_calls :: "ToolCall list"

fun coerce_text :: "(json \<Rightarrow> string) \<Rightarrow> json \<Rightarrow> string" where
  "coerce_text repr JNull = []"
| "coerce_text repr (JStr s) = s"
| "coerce_text repr (JList items) =
     concat (map (\<lambda>item. if is_dict item \<and> dict_get item ''type'' JNull = JStr ''text''
                          then py_str repr (dict_get item ''text'' (JStr [])) else []) items)"
| "coerce_text repr v = py_str repr v"

text \<open>
  The observer hooks. A hook is given its text arguments only; it acts on a state of its
  own, \<open>'u\<close> (the console), and may raise (\<open>Some\<close>).
\<close>

record 'u AgentCallbacks =
  on_status :: "(string \<Rightarrow> 'u \<Rightarrow> exn option \<times> 'u) option"
  on_thinking :: "(string \<Rightarrow> 'u \<Rightarrow> exn option \<times> 'u) option"
  on_tool_call :: "(string \<Rightarrow> string \<Rightarrow> 'u \<Rightarrow> exn option \<times> 'u) option"
  on_tool_result :: "(string \<Rightarrow> string \<Rightarrow> 'u \<Rightarrow> exn option \<times> 'u) option"

text \<open>\<^verbatim>\<open>_fire\<close>, for a hook of one argument and for a hook of two.\<close>

definition fire1 :: "(string \<Rightarrow> 'u \<Rightarrow> exn option \<times> 'u) option \<Rightarrow> string \<Rightarrow> 'u \<Rightarrow> exn option \<times> 'u" where
  "fire1 fn a u = (case fn of None \<Rightarrow> (None, u) | Some f \<Rightarrow> f a u)"

definition fire2 ::
  "(string \<Rightarrow> string \<Rightarrow> 'u \<Rightarrow> exn option \<times> 'u) option \<Rightarrow> string \<Rightarrow> string \<Rightarrow> 'u \<Rightarrow> exn option \<times> 'u" where
  "fire2 fn a b u = (case fn of None \<Rightarrow> (None, u) | Some f \<Rightarrow> f a b u)"

text \<open>
  The agent. The chat model is given the messages and the tool schemas, acts on the
  world, and returns a completion or raises.
\<close>

record ('w, 'u) NanoCodeAgent =
  model :: "Message list \<Rightarrow> (string \<times> string \<times> json) list \<Rightarrow> 'w \<Rightarrow> (exn + Completion) \<times> 'w"
  agent_tools :: "'w ToolRegistry"
  max_steps :: int
  cb :: "'u AgentCallbacks"
  messages :: "Message list"

text \<open>
  What is outside the agent: the world of the tools and of the chat model, the console
  of the hooks, and the completion requests made so far (the message list of each).
\<close>

record ('w, 'u) env =
  world :: 'w
  ui :: 'u
  requests :: "Message list list"

definition new_agent ::
  "(Message list \<Rightarrow> (string \<times> string \<times> json) list \<Rightarrow> 'w \<Rightarrow> (exn + Completion) \<times> 'w) \<Rightarrow>
   'w ToolRegistry \<Rightarrow> string \<Rightarrow> int option \<Rightarrow> 'u AgentCallbacks option \<Rightarrow>
   (string \<Rightarrow> string \<Rightarrow> 'u \<Rightarrow> exn option \<times> 'u) option \<Rightarrow> ('w, 'u) NanoCodeAgent" where
  "new_agent m registry system_prompt config callbacks legacy_on_tool_call =
     \<lparr> model = m, agent_tools = registry,
       max_steps = (case config of None \<Rightarrow> 20 | Some k \<Rightarrow> k),
       cb = (case callbacks of
               None \<Rightarrow> \<lparr> on_status = None, on_thinking = None,
                          on_tool_call = legacy_on_tool_call, on_tool_result = None \<rparr>
             | Some c \<Rightarrow> c),
       messages = [\<lparr> role = RoleSystem, content = JStr system_prompt, reasoning_content = None,
                     tool_calls = [], tool_call_id = None \<rparr>] \<rparr>"

definition call_ident :: "ToolCall \<Rightarrow> string" where
  "call_ident call = (case tc_id call of None \<Rightarrow> [] | Some i \<Rightarrow> i)"

definition call_name :: "ToolCall \<Rightarrow> string" where
  "call_name call =
     (case tc_function call of
        None \<Rightarrow> []
      | Some f \<Rightarrow> (case fn_name f of None \<Rightarrow> [] | Some n \<Rightarrow> n))"

definition call_arguments :: "ToolCall \<Rightarrow> string" where
  "call_arguments call =
     (case tc_function call of
        None \<Rightarrow> ''{}''
      | Some f \<Rightarrow> (case fn_arguments f of None \<Rightarrow> ''{}'' | Some a \<Rightarrow> a))"

definition tool_message :: "string \<Rightarrow> string \<Rightarrow> Message" where
  "tool_message call_id result =
     \<lparr> role = RoleTool, content = JStr result, reasoning_content = None,
       tool_calls = [], tool_call_id = Some call_id \<rparr>"

text \<open>
  The inner loop of \<open>run\<close> over the tool calls of one assistant message. \<open>Some\<close>
  is an exception that leaves the loop.
\<close>

fun run_tool_calls ::
  "stdlib \<Rightarrow> ToolCall list \<Rightarrow> ('w, 'u) NanoCodeAgent \<times> ('w, 'u) env \<Rightarrow>
   exn option \<times> ('w, 'u) NanoCodeAgent \<times> ('w, 'u) env" where
  "run_tool_calls lib [] (agent, e) = (None, agent, e)"
| "run_tool_calls lib (call # rest) (agent, e) =
     (case fire2 (on_tool_call (cb agent)) (call_name call) (call_arguments call) (ui e) of
        (Some exc, u1) \<Rightarrow> (Some exc, agent, e \<lparr> ui := u1 \<rparr>)
      | (None, u1) \<Rightarrow>
          (case execute lib (agent_tools agent) (call_name call) (call_arguments call) (world e) of
             (Inl exc, registry', w') \<Rightarrow>
               (Some exc, agent \<lparr> agent_tools := registry' \<rparr>, e \<lparr> world := w', ui := u1 \<rparr>)
           | (Inr result, registry', w') \<Rightarrow>
               (case fire2 (on_tool_result (cb agent)) (call_name call) result u1 of
                  (Some exc, u2) \<Rightarrow>
                    (Some exc, agent \<lparr> agent_tools := registry' \<rparr>, e \<lparr> world := w', ui := u2 \<rparr>)
                | (None, u2) \<Rightarrow>
                    run_tool_calls lib rest
                      (agent \<lparr> agent_tools := registry',
                               messages := messages agent @ [tool_message (call_ident call) result] \<rparr>,
                       e \<lparr> world := w', ui := u2 \<rparr>))))"

definition assistant_record :: "Completion \<Rightarrow> Message" where
  "assistant_record assistant =
     \<lparr> role = RoleAssistant, content = c_content assistant,
       reasoning_content = (if py_bool (c_reasoning_content assistant)
                            then Some (c_reasoning_content assistant) else None),
       tool_calls = c_tool_calls assistant, tool_call_id = None \<rparr>"

text \<open>
  The loop \<^verbatim>\<open>for _ in range(max_steps)\<close> with its number of rounds left, and the
  \<^verbatim>\<open>raise\<close> that follows it.
\<close>

fun run_steps ::
  "stdlib \<Rightarrow> nat \<Rightarrow> ('w, 'u) NanoCodeAgent \<times> ('w, 'u) env \<Rightarrow>
   (exn + string) \<times> ('w, 'u) NanoCodeAgent \<times> ('w, 'u) env" where
  "run_steps lib 0 (agent, e) =
     (Inl (RuntimeError (''max steps exceeded ('' @ str_int (max_steps agent) @ '')'')), agent, e)"
| "run_steps lib (Suc n) (agent, e) =
     (case fire1 (on_status (cb agent)) ''Thinking...'' (ui e) of
        (Some exc, u1) \<Rightarrow> (Inl exc, agent, e \<lparr> ui := u1 \<rparr>)
      | (None, u1) \<Rightarrow>
          (case model agent (messages agent) (as_openai_tools (agent_tools agent)) (world e) of
             (Inl exc, w1) \<Rightarrow>
               (Inl exc, agent, e \<lparr> world := w1, ui := u1, requests := requests e @ [messages agent] \<rparr>)
           | (Inr assistant, w1) \<Rightarrow>
               (case fire1 (on_status (cb agent)) [] u1 of
                  (Some exc, u2) \<Rightarrow>
                    (Inl exc, agent, e \<lparr> world := w1, ui := u2, requests := requests e @ [messages agent] \<rparr>)
                | (None, u2) \<Rightarrow>
                    (case (if py_bool (c_reasoning_content assistant)
                           then fire1 (on_thinking (cb agent))
                                  (py_str (py_repr lib) (c_reasoning_content assistant)) u2
                           else (None, u2)) of
                       (Some exc, u3) \<Rightarrow>
                         (Inl exc, agent,
                          e \<lparr> world := w1, ui := u3, requests := requests e @ [messages agent] \<rparr>)
                     | (None, u3) \<Rightarrow>
                         (let agent1 = agent \<lparr> messages := messages agent @ [assistant_record assistant] \<rparr>;
                              e1 = e \<lparr> world := w1, ui := u3, requests := requests e @ [messages agent] \<rparr>
                          in if c_tool_calls assistant = []
                             then (Inr (coerce_text (py_repr lib) (c_content assistant)), agent1, e1)
                             else
                               (case run_tool_calls lib (c_tool_calls assistant) (agent1, e1) of
                                  (Some exc, agent2, e2) \<Rightarrow> (Inl exc, agent2, e2)
                                | (None, agent2, e2) \<Rightarrow> run_steps lib n (agent2, e2)))))))"

definition user_message :: "string \<Rightarrow> Message" where
  "user_message user_input =
     \<lparr> role = RoleUser, content = JStr user_input, reasoning_content = None,
       tool_calls = [], tool_call_id = None \<rparr>"

definition run ::
  "stdlib \<Rightarrow> ('w, 'u) NanoCodeAgent \<Rightarrow> string \<Rightarrow> ('w, 'u) env \<Rightarrow>
   (exn + string) \<times> ('w, 'u) NanoCodeAgent \<times> ('w, 'u) env" where
  "run lib agent user_input e =
     run_steps lib (nat (max_steps agent))
       (agent \<lparr> messages := messages agent @ [user_message user_input] \<rparr>, e)"

section \<open>Notions of the specification\<close>

text \<open>
  A plan item validates when it is an object, the text of its step is not empty after
  trimming, and the trimmed text of its status is one of the three statuses; the text of
  a value is \<^verbatim>\<open>str\<close> of it, and trimming is \<^verbatim>\<open>str.strip()\<close> of the
  library. The normalized item holds the two trimmed texts.
\<close>

definition field_text :: "stdlib \<Rightarrow> json \<Rightarrow> string \<Rightarrow> string" where
  "field_text lib item k = py_strip lib (py_str (py_repr lib) (dict_get item k (JStr [])))"

definition item_validates :: "stdlib \<Rightarrow> json \<Rightarrow> bool" where
  "item_validates lib item =
     (is_dict item \<and> field_text lib item ''step'' \<noteq> [] \<and>
      field_text lib item ''status'' \<in> {''pending'', ''in_progress'', ''completed''})"

definition normalized_item :: "stdlib \<Rightarrow> json \<Rightarrow> plan_item" where
  "normalized_item lib item =
     \<lparr> step = field_text lib item ''step'', status = field_text lib item ''status'' \<rparr>"

definition payload_items :: "json \<Rightarrow> json list option" where
  "payload_items args = (case dict_get args ''plan'' JNull of JList items \<Rightarrow> Some items | _ \<Rightarrow> None)"

definition payload_validates :: "stdlib \<Rightarrow> json \<Rightarrow> bool" where
  "payload_validates lib args =
     (case payload_items args of Some items \<Rightarrow> list_all (item_validates lib) items | None \<Rightarrow> False)"

definition plan_errors :: "string set" where
  "plan_errors = {''plan must be a list of {step, status}'', ''each plan item must be an object'',
                  ''plan step cannot be empty'', ''status must be pending | in_progress | completed''}"

text \<open>
  The payload as the specification words it: a list of objects, each with a step that is a
  non-empty text and a status that is one of the three texts.
\<close>

definition well_formed_item :: "json \<Rightarrow> bool" where
  "well_formed_item item =
     (case (dict_get item ''step'' JNull, dict_get item ''status'' JNull) of
        (JStr s, JStr st) \<Rightarrow> is_dict item \<and> s \<noteq> [] \<and> st \<in> {''pending'', ''in_progress'', ''completed''}
      | _ \<Rightarrow> False)"

definition well_formed_payload :: "json \<Rightarrow> bool" where
  "well_formed_payload args =
     (case payload_items args of Some items \<Rightarrow> list_all well_formed_item items | None \<Rightarrow> False)"

text \<open>
  The declarations of all the manifests that parse, in loading order; the error that
  reports a dropped declaration; a registry as \<open>register\<close> builds it, with one tool
  per name, stored under its name; the number of occurrences of a value in a list.
\<close>

definition all_specs :: "stdlib \<Rightarrow> ('c, 's) plugin_parsers \<Rightarrow> manifest_file list \<Rightarrow> PluginToolSpec list" where
  "all_specs lib ps manifests =
     concat (map (\<lambda>m. case parse_manifest lib ps m of Inl exc \<Rightarrow> [] | Inr parsed \<Rightarrow> pm_tools parsed) manifests)"

definition duplicate_error :: "string \<Rightarrow> string" where
  "duplicate_error n = ''duplicate plugin tool ignored: '' @ n"

definition wf_registry :: "'w ToolRegistry \<Rightarrow> bool" where
  "wf_registry reg = (distinct (map fst (tools reg)) \<and> list_all (\<lambda>(k, t). k = name t) (tools reg))"

definition count_eq :: "'a \<Rightarrow> 'a list \<Rightarrow> nat" where
  "count_eq x xs = length (filter (\<lambda>y. y = x) xs)"

text \<open>
  Tool messages answer tool calls: reading a list of messages with the identifiers of
  the calls still unanswered, a tool message must carry the identifier of the first of
  them, and any other message must find none left; an assistant message leaves the
  identifiers of its own calls, in order. The result is the identifiers unanswered at
  the end, or \<open>None\<close> when a message breaks the rule.
\<close>

fun answered :: "string list \<Rightarrow> Message list \<Rightarrow> string list option" where
  "answered pending [] = Some pending"
| "answered pending (m # ms) =
     (case role m of
        RoleTool \<Rightarrow>
          (case pending of
             [] \<Rightarrow> None
           | p # ps \<Rightarrow> if tool_call_id m = Some p then answered ps ms else None)
      | RoleAssistant \<Rightarrow> if pending = [] then answered (map call_ident (tool_calls m)) ms else None
      | RoleUser \<Rightarrow> if pending = [] then answered [] ms else None
      | RoleSystem \<Rightarrow> if pending = [] then answered [] ms else None)"

text \<open>
  A chat model whose every response carries a tool call; hooks that return; an approval
  callback that returns; and what of a run can be seen apart from the console of the
  hooks: the result, the conversation, the registry, the world and the requests.
\<close>

definition always_requests_tool ::
  "(Message list \<Rightarrow> (string \<times> string \<times> json) list \<Rightarrow> 'w \<Rightarrow> (exn + Completion) \<times> 'w) \<Rightarrow> bool" where
  "always_requests_tool m =
     (\<forall>msgs schemas w. \<exists>c w'. m msgs schemas w = (Inr c, w') \<and> c_tool_calls c \<noteq> [])"

definition hooks_return :: "'u AgentCallbacks \<Rightarrow> bool" where
  "hooks_return c =
     ((\<forall>f a u. on_status c = Some f \<longrightarrow> fst (f a u) = None) \<and>
      (\<forall>f a u. on_thinking c = Some f \<longrightarrow> fst (f a u) = None) \<and>
      (\<forall>f a b u. on_tool_call c = Some f \<longrightarrow> fst (f a b u) = None) \<and>
      (\<forall>f a b u. on_tool_result c = Some f \<longrightarrow> fst (f a b u) = None))"

definition approval_returns :: "'w ToolContext \<Rightarrow> bool" where
  "approval_returns ctx = (\<forall>action preview w. \<exists>b w'. ask_approval ctx action preview w = (Inr b, w'))"

definition observable ::
  "(exn + string) \<times> ('w, 'u) NanoCodeAgent \<times> ('w, 'u) env \<Rightarrow>
   (exn + string) \<times> Message list \<times> 'w ToolRegistry \<times> 'w \<times> Message list list" where
  "observable x = (case x of (r, agent, e) \<Rightarrow> (r, messages agent, agent_tools agent, world e, requests e))"



definition agree ::
  "('w, 'u) NanoCodeAgent \<times> ('w, 'u) env \<Rightarrow> ('w, 'v) NanoCodeAgent \<times> ('w, 'v) env \<Rightarrow> bool" where
  "agree s1 s2 =
     (case s1 of (a1, e1) \<Rightarrow> case s2 of (a2, e2) \<Rightarrow>
        model a1 = model a2 \<and> agent_tools a1 = agent_tools a2 \<and> max_steps a1 = max_steps a2 \<and>
        messages a1 = messages a2 \<and> world e1 = world e2 \<and> requests e1 = requests e2 \<and>
        hooks_return (cb a1) \<and> hooks_return (cb a2))"

text \<open>
  An argument text is decodable when \<^verbatim>\<open>json.loads\<close> parses it or rejects it with
  \<^verbatim>\<open>JSONDecodeError\<close>, the one exception that \<open>execute\<close> catches around the
  decoding; a chat model has decodable calls when every tool call of every completion
  it returns carries such an argument text. Tool hooks that return are the two hooks
  fired inside the loop over the tool calls.
\<close>

definition loads_decodes :: "stdlib \<Rightarrow> string \<Rightarrow> bool" where
  "loads_decodes lib arguments_json =
     (case json_loads lib (if arguments_json = [] then ''{}'' else arguments_json) of
        Inl (JSONDecodeError msg) \<Rightarrow> True
      | Inl exc \<Rightarrow> False
      | Inr v \<Rightarrow> True)"

definition calls_decodable ::
  "stdlib \<Rightarrow> (Message list \<Rightarrow> (string \<times> string \<times> json) list \<Rightarrow> 'w \<Rightarrow> (exn + Completion) \<times> 'w) \<Rightarrow> bool" where
  "calls_decodable lib m =
     (\<forall>msgs schemas w c w'. m msgs schemas w = (Inr c, w') \<longrightarrow>
        list_all (\<lambda>call. loads_decodes lib (call_arguments call)) (c_tool_calls c))"




text \<open>
  Hooks under observation. The console of the hooks is kept in a record beside two
  notes, empty and zero at the start: the first exception that a hook has raised, and
  the number of times a hook was fired after that. Each of the four hooks is run as it
  is on the console. The agent and its surroundings are otherwise the same, which
  \<open>watch_rel\<close> states for two states of the loop.
\<close>

record 'u watched =
  inner :: 'u
  raised :: "exn option"
  late :: nat

definition watch :: "exn option \<times> 'u \<Rightarrow> 'u watched \<Rightarrow> exn option \<times> 'u watched" where
  "watch out s =
     (case out of
        (x, u') \<Rightarrow>
          (x, \<lparr> inner = u',
                raised = (case raised s of None \<Rightarrow> x | Some first \<Rightarrow> Some first),
                late = (case raised s of None \<Rightarrow> late s | Some first \<Rightarrow> Suc (late s)) \<rparr>))"

definition watch1 ::
  "(string \<Rightarrow> 'u \<Rightarrow> exn option \<times> 'u) \<Rightarrow> string \<Rightarrow> 'u watched \<Rightarrow> exn option \<times> 'u watched" where
  "watch1 f a s = watch (f a (inner s)) s"

definition watch2 ::
  "(string \<Rightarrow> string \<Rightarrow> 'u \<Rightarrow> exn option \<times> 'u) \<Rightarrow>
   string \<Rightarrow> string \<Rightarrow> 'u watched \<Rightarrow> exn option \<times> 'u watched" where
  "watch2 f a b s = watch (f a b (inner s)) s"

definition watching :: "'u AgentCallbacks \<Rightarrow> 'u watched AgentCallbacks" where
  "watching c =
     \<lparr> on_status = map_option watch1 (on_status c), on_thinking = map_option watch1 (on_thinking c),
       on_tool_call = map_option watch2 (on_tool_call c),
       on_tool_result = map_option watch2 (on_tool_result c) \<rparr>"

definition watched_agent :: "('w, 'u) NanoCodeAgent \<Rightarrow> ('w, 'u watched) NanoCodeAgent" where
  "watched_agent agent =
     \<lparr> model = model agent, agent_tools = agent_tools agent, max_steps = max_steps agent,
       cb = watching (cb agent), messages = messages agent \<rparr>"

definition watched_env :: "('w, 'u) env \<Rightarrow> ('w, 'u watched) env" where
  "watched_env e =
     \<lparr> world = world e, ui = \<lparr> inner = ui e, raised = None, late = 0 \<rparr>, requests = requests e \<rparr>"

definition watch_rel ::
  "('w, 'u) NanoCodeAgent \<times> ('w, 'u) env \<Rightarrow>
   ('w, 'u watched) NanoCodeAgent \<times> ('w, 'u watched) env \<Rightarrow> exn option \<Rightarrow> bool" where
  "watch_rel s sW fl =
     (case s of (a, e) \<Rightarrow> case sW of (aW, eW) \<Rightarrow>
        model aW = model a \<and> agent_tools aW = agent_tools a \<and> max_steps aW = max_steps a \<and>
        messages aW = messages a \<and> cb aW = watching (cb a) \<and>
        world eW = world e \<and> requests eW = requests e \<and>
        ui eW = \<lparr> inner = ui e, raised = fl, late = 0 \<rparr>)"

section \<open>Example values\<close>

text \<open>
  The values the examples below run on, after the fixtures of the test suite: a
  context rooted at \<^verbatim>\<open>/tmp\<close> whose approval callback gives a fixed answer, a
  world that is the list of the names of the tools that ran, tools that record their
  name there, a stand-in for the library on the documents and the ASCII texts the
  examples pass (the empty object, an integer of more than 4300 digits, a broken
  document), the
  echo plugin and its manifest, chat models that answer at once, ask for a tool once, or
  ask for a tool for ever, and hooks that do nothing, count their calls, or raise.
\<close>

definition stub_lib :: stdlib where
  "stub_lib =
     \<lparr> json_loads =
         (\<lambda>s. if s = ''{}'' then Inr (JObj [])
              else if 4300 < length s \<and> s = replicate (length s) (CHR ''1'')
                then Inl (ValueError ''Exceeds the limit (4300 digits) for integer string conversion'')
              else Inl (JSONDecodeError ''Expecting value'')),
       json_dumps = (\<lambda>v. ''{}''), py_repr = (\<lambda>v. ''?''),
       int_of_str = (\<lambda>s. Inl (ValueError ''invalid literal for int()'')),
       py_strip = latin1_strip \<rparr>"

definition long_integer :: string where
  "long_integer = replicate 4301 (CHR ''1'')"

definition test_context :: "SandboxMode \<Rightarrow> ApprovalPolicy \<Rightarrow> (exn + bool) \<Rightarrow> string list ToolContext" where
  "test_context mode policy answer =
     \<lparr> cwd = [''tmp''], ask_approval = (\<lambda>action preview w. (answer, w)),
       sandbox_mode = mode, approval_policy = policy, plan = [] \<rparr>"

definition touch_tool :: "string \<Rightarrow> bool \<Rightarrow> string list Tool" where
  "touch_tool nm m =
     \<lparr> name = nm, description = [], parameters = JObj [],
       handler = (\<lambda>ctx args w. (Inr ''done'', plan ctx, nm # w)), mutating = m \<rparr>"

definition test_registry :: "SandboxMode \<Rightarrow> ApprovalPolicy \<Rightarrow> (exn + bool) \<Rightarrow> string list ToolRegistry" where
  "test_registry mode policy answer =
     register (register (ToolRegistry (test_context mode policy answer)) (touch_tool ''write_file'' True))
       (touch_tool ''read_file'' False)"



definition null_step_payload :: json where
  "null_step_payload = JObj [(''plan'', JList [JObj [(''step'', JNull), (''status'', JStr ''pending'')]])]"

definition padded_status_payload :: json where
  "padded_status_payload =
     JObj [(''plan'', JList [JObj [(''step'', JStr ''inspect''), (''status'', JStr '' pending '')]])]"

definition two_step_payload :: json where
  "two_step_payload =
     JObj [(''plan'', JList [JObj [(''step'', JStr ''inspect''), (''status'', JStr ''completed'')],
                             JObj [(''step'', JStr ''implement''), (''status'', JStr ''in_progress'')]])]"

definition half_valid_payload :: json where
  "half_valid_payload =
     JObj [(''plan'', JList [JObj [(''step'', JStr ''inspect''), (''status'', JStr ''completed'')],
                             JObj [(''step'', JStr ''implement''), (''status'', JStr ''started'')]])]"

definition no_break_space_payload :: json where
  "no_break_space_payload =
     JObj [(''plan'', JList [JObj [(''step'', JStr [CHR 0xA0]), (''status'', JStr ''pending'')]])]"

definition full_access_parent :: "string list ToolRegistry" where
  "full_access_parent =
     register (test_registry DANGER_FULL_ACCESS ALWAYS (Inr True)) (update_plan_tool stub_lib (JObj []))"

definition planned_context :: "string list ToolContext" where
  "planned_context =
     (test_context WORKSPACE_WRITE ON_REQUEST (Inr True)) \<lparr> plan := [\<lparr> step = ''old'', status = ''pending'' \<rparr>] \<rparr>"

definition echo_item :: json where
  "echo_item =
     JObj [(''name'', JStr ''echo_text''), (''description'', JStr ''Echo input text''),
           (''parameters'', JObj [(''type'', JStr ''object'')]),
           (''argv'', JList [JStr ''python'', JStr ''tool.py''])]"

definition echo_manifest :: manifest_file where
  "echo_manifest =
     \<lparr> mf_dir = [''tmp'', ''plugins'', ''echo''],
       mf_payload = Inr (JObj [(''name'', JStr ''EchoPlugin''), (''tools'', JList [echo_item])]) \<rparr>"

definition no_parsers :: "(unit, unit) plugin_parsers" where
  "no_parsers = \<lparr> parse_commands = (\<lambda>payload plugin_name. Inr []),
                  parse_skills = (\<lambda>payload dir plugin_name. Inr []) \<rparr>"

definition echo_handler ::
  "PluginToolSpec \<Rightarrow> string list ToolContext \<Rightarrow> json \<Rightarrow> string list \<Rightarrow> (exn + string) \<times> plan_item list \<times> string list" where
  "echo_handler spec = (\<lambda>ctx args w. (Inr ''echo'', plan ctx, ts_name spec # w))"

definition echo_spec :: PluginToolSpec where
  "echo_spec =
     \<lparr> ts_plugin_name = ''EchoPlugin'', ts_name = ''echo_text'', ts_description = ''Echo input text'',
       ts_parameters = JObj [(''type'', JStr ''object'')], ts_mutating = False, ts_timeout_sec = 120,
       ts_command = None, ts_argv = Some [''python'', ''tool.py''],
       ts_workdir = [''tmp'', ''plugins'', ''echo''] \<rparr>"

definition echo_server :: McpServerConfig where
  "echo_server = \<lparr> sc_name = ''demo'', sc_command = ''python'', sc_args = [''server.py''], sc_timeout_sec = 30 \<rparr>"

definition echo_mcp_tool :: McpToolInfo where
  "echo_mcp_tool = \<lparr> mt_name = ''echo'', mt_description = Some ''Echo text'', inputSchema = JObj [],
                      annotations = None \<rparr>"

definition echo_call ::
  "McpServerConfig \<Rightarrow> string \<Rightarrow> string list ToolContext \<Rightarrow> json \<Rightarrow> string list \<Rightarrow>
   (exn + string) \<times> plan_item list \<times> string list" where
  "echo_call server tool_name = (\<lambda>ctx args w. (Inr ''mcp'', plan ctx, tool_name # w))"

definition quiet :: "nat AgentCallbacks" where
  "quiet = \<lparr> on_status = None, on_thinking = None, on_tool_call = None, on_tool_result = None \<rparr>"

definition counting :: "nat AgentCallbacks" where
  "counting =
     \<lparr> on_status = Some (\<lambda>text u. (None, Suc u)), on_thinking = None,
       on_tool_call = Some (\<lambda>nm args u. (None, Suc u)), on_tool_result = None \<rparr>"

definition failing_status :: "nat AgentCallbacks" where
  "failing_status = quiet \<lparr> on_status := Some (\<lambda>text u. (Some (OtherError ''display closed''), u)) \<rparr>"

definition done_model ::
  "Message list \<Rightarrow> (string \<times> string \<times> json) list \<Rightarrow> string list \<Rightarrow> (exn + Completion) \<times> string list" where
  "done_model msgs schemas w =
     (Inr \<lparr> c_content = JStr ''Done: file inspected.'', c_reasoning_content = JNull, c_tool_calls = [] \<rparr>, w)"

definition looping_model ::
  "Message list \<Rightarrow> (string \<times> string \<times> json) list \<Rightarrow> string list \<Rightarrow> (exn + Completion) \<times> string list" where
  "looping_model msgs schemas w =
     (Inr \<lparr> c_content = JStr [], c_reasoning_content = JNull,
            c_tool_calls = [\<lparr> tc_id = Some ''call_loop'',
                               tc_function = Some \<lparr> fn_name = Some ''read_file'',
                                                    fn_arguments = Some ''{}'' \<rparr> \<rparr>] \<rparr>, w)"

definition test_agent ::
  "(Message list \<Rightarrow> (string \<times> string \<times> json) list \<Rightarrow> string list \<Rightarrow> (exn + Completion) \<times> string list) \<Rightarrow>
   int \<Rightarrow> nat AgentCallbacks \<Rightarrow> (string list, nat) NanoCodeAgent" where
  "test_agent m k c =
     new_agent m (test_registry WORKSPACE_WRITE ON_REQUEST (Inr True)) ''system prompt'' (Some k) (Some c) None"

definition test_env :: "(string list, nat) env" where
  "test_env = \<lparr> world = [], ui = 0, requests = [] \<rparr>"

definition fake_model ::
  "Message list \<Rightarrow> (string \<times> string \<times> json) list \<Rightarrow> string list \<Rightarrow> (exn + Completion) \<times> string list" where
  "fake_model msgs schemas w =
     (if msgs \<noteq> [] \<and> role (last msgs) = RoleUser
      then (Inr \<lparr> c_content = JStr [], c_reasoning_content = JNull,
                  c_tool_calls = [\<lparr> tc_id = Some ''call_1'',
                                     tc_function = Some \<lparr> fn_name = Some ''read_file'',
                                                          fn_arguments = Some ''{}'' \<rparr> \<rparr>] \<rparr>, w)
      else done_model msgs schemas w)"

definition failing_tool_result :: "nat AgentCallbacks" where
  "failing_tool_result =
     quiet \<lparr> on_tool_result := Some (\<lambda>nm result u. (Some (RuntimeError ''display closed''), u)) \<rparr>"

definition overflow_model ::
  "Message list \<Rightarrow> (string \<times> string \<times> json) list \<Rightarrow> string list \<Rightarrow> (exn + Completion) \<times> string list" where
  "overflow_model msgs schemas w =
     (Inr \<lparr> c_content = JStr [], c_reasoning_content = JNull,
            c_tool_calls = [\<lparr> tc_id = Some ''call_big'',
                               tc_function = Some \<lparr> fn_name = Some ''read_file'',
                                                    fn_arguments = Some long_integer \<rparr> \<rparr>] \<rparr>, w)"

section \<open>Path containment\<close>

lemma resolve_path_unfold:
  "resolve_path os ctx raw =
     (if sandbox_mode ctx \<noteq> DANGER_FULL_ACCESS \<and> \<not> prefix (cwd ctx) (resolved_against os (cwd ctx) raw)
      then Inl (ValueError (''path escapes workspace: '' @ raw))
      else Inr (resolved_against os (cwd ctx) raw))"
  by (simp add: resolve_path_def resolved_against_def is_within_def Let_def)

text \<open>
  C1. In every sandbox mode but full access, \<open>resolve_path\<close> raises the path-escape
  error when the resolved path is not under the workspace root, and returns the resolved
  path when it is under the root; with full access it returns the resolved path
  whatever it is.
\<close>

theorem resolve_path_containment:
  "(sandbox_mode ctx \<noteq> DANGER_FULL_ACCESS \<longrightarrow>
      (\<not> prefix (cwd ctx) (resolved_against os (cwd ctx) raw) \<longrightarrow>
         resolve_path os ctx raw = Inl (ValueError (''path escapes workspace: '' @ raw))) \<and>
      (prefix (cwd ctx) (resolved_against os (cwd ctx) raw) \<longrightarrow>
         resolve_path os ctx raw = Inr (resolved_against os (cwd ctx) raw))) \<and>
   (strict_prefix (cwd ctx) (resolved_against os (cwd ctx) raw) \<longrightarrow>
      resolve_path os ctx raw = Inr (resolved_against os (cwd ctx) raw)) \<and>
   (sandbox_mode ctx = DANGER_FULL_ACCESS \<longrightarrow>
      resolve_path os ctx raw = Inr (resolved_against os (cwd ctx) raw))"
  by (simp add: resolve_path_unfold strict_prefix_def)

text \<open>
  On a file system without symbolic links, from a root with no dot components, a
  relative path with no \<^verbatim>\<open>..\<close> component resolves under the root in every mode.
\<close>

lemma foldl_resolve_step_plain:
  "\<forall>p \<in> set ps. p \<noteq> ''..'' \<and> p \<noteq> ''.'' \<and> p \<noteq> [] \<Longrightarrow> foldl resolve_step acc ps = acc @ ps"
  by (induction ps arbitrary: acc) simp_all

lemma resolve_path_plain_inside:
  assumes "\<forall>p \<in> set (cwd ctx). p \<noteq> ''..'' \<and> p \<noteq> ''.'' \<and> p \<noteq> []"
      and "\<not> is_absolute (Path raw)"
      and "''..'' \<notin> set (parts (Path raw))"
  shows "resolve_path plain_fs ctx raw = Inr (cwd ctx @ parts (Path raw))"
proof -
  have "\<forall>p \<in> set (cwd ctx @ parts (Path raw)). p \<noteq> ''..'' \<and> p \<noteq> ''.'' \<and> p \<noteq> []"
    using assms(1,3) by (auto simp: Path_def)
  then have "resolve_nolinks (cwd ctx @ parts (Path raw)) = cwd ctx @ parts (Path raw)"
    unfolding resolve_nolinks_def by (rule foldl_resolve_step_plain [where acc = "[]", simplified])
  then show ?thesis
    using assms(2) by (simp add: resolve_path_def plain_fs_def is_within_def Let_def)
qed

theorem resolve_path_containment_witness:
  "resolve_path plain_fs (test_context WORKSPACE_WRITE ON_REQUEST (Inr True)) ''../outside.txt''
     = Inl (ValueError ''path escapes workspace: ../outside.txt'') \<and>
   resolve_path plain_fs (test_context READ_ONLY ON_REQUEST (Inr True)) ''src/../note.txt''
     = Inr [''tmp'', ''note.txt''] \<and>
   resolve_path plain_fs (test_context DANGER_FULL_ACCESS ON_REQUEST (Inr True)) ''../outside.txt''
     = Inr [''outside.txt'']"
  using resolve_path_containment [of "test_context WORKSPACE_WRITE ON_REQUEST (Inr True)" plain_fs "''../outside.txt''"]
        resolve_path_containment [of "test_context READ_ONLY ON_REQUEST (Inr True)" plain_fs "''src/../note.txt''"]
        resolve_path_containment [of "test_context DANGER_FULL_ACCESS ON_REQUEST (Inr True)" plain_fs "''../outside.txt''"]
  by (simp add: test_context_def resolved_against_def plain_fs_def Path_def resolve_nolinks_def)

section \<open>The execution gate\<close>

text \<open>
  C2 (as amended). For a registered mutating tool and arguments that parse to an object,
  the gate is decided in this order: with a read-only sandbox the call is blocked;
  otherwise with approval policy never it is blocked; otherwise with policy on-request
  and a callback answering no it is rejected. In the three cases the registry (and the
  plan in it) and the world are returned as they were, or as the callback left the
  world, whatever the handler of the tool is. Otherwise with policy always the result is
  that of the handler call alone, whatever the callback is.
\<close>

theorem execute_mutating_gate:
  assumes "map_of (tools reg) nm = Some tool"
      and "mutating tool"
      and "json_loads lib (if arguments_json = [] then ''{}'' else arguments_json) = Inr arguments"
      and "is_dict arguments"
  shows "(sandbox_mode (reg_context reg) = READ_ONLY \<longrightarrow>
            execute lib reg nm arguments_json w = (Inr ''blocked by sandbox policy: read-only'', reg, w)) \<and>
         (sandbox_mode (reg_context reg) \<noteq> READ_ONLY \<and> approval_policy (reg_context reg) = NEVER \<longrightarrow>
            execute lib reg nm arguments_json w = (Inr ''blocked by approval policy: never'', reg, w)) \<and>
         (sandbox_mode (reg_context reg) \<noteq> READ_ONLY \<and> approval_policy (reg_context reg) = ON_REQUEST \<and>
          ask_approval (reg_context reg) nm (take 600 (json_dumps lib arguments)) w = (Inr False, w') \<longrightarrow>
            execute lib reg nm arguments_json w = (Inr ''Rejected by user.'', reg, w')) \<and>
         (sandbox_mode (reg_context reg) \<noteq> READ_ONLY \<and> approval_policy (reg_context reg) = ALWAYS \<longrightarrow>
            execute lib reg nm arguments_json w = call_handler reg tool arguments w)"
  using assms by (simp add: execute_def)

lemma test_registry_lookup:
  "map_of (tools (test_registry m p a)) ''write_file'' = Some (touch_tool ''write_file'' True)"
  by (simp add: test_registry_def register_def ToolRegistry_def touch_tool_def)

lemma stub_loads: "json_loads stub_lib (if ''{}'' = [] then ''{}'' else ''{}'') = Inr (JObj [])"
  by (simp add: stub_lib_def)

theorem execute_mutating_gate_witness:
  "execute stub_lib (test_registry READ_ONLY ON_REQUEST (Inr True)) ''write_file'' ''{}'' []
     = (Inr ''blocked by sandbox policy: read-only'', test_registry READ_ONLY ON_REQUEST (Inr True), []) \<and>
   execute stub_lib (test_registry WORKSPACE_WRITE NEVER (Inr True)) ''write_file'' ''{}'' []
     = (Inr ''blocked by approval policy: never'', test_registry WORKSPACE_WRITE NEVER (Inr True), []) \<and>
   execute stub_lib (test_registry WORKSPACE_WRITE ON_REQUEST (Inr False)) ''write_file'' ''{}'' []
     = (Inr ''Rejected by user.'', test_registry WORKSPACE_WRITE ON_REQUEST (Inr False), []) \<and>
   execute stub_lib (test_registry WORKSPACE_WRITE ALWAYS (Inl (OtherError ''not asked''))) ''write_file'' ''{}'' []
     = (Inr ''done'', test_registry WORKSPACE_WRITE ALWAYS (Inl (OtherError ''not asked'')), [''write_file''])"
proof -
  have m: "mutating (touch_tool ''write_file'' True)" by (simp add: touch_tool_def)
  have d: "is_dict (JObj [])" by simp
  note g = execute_mutating_gate [OF test_registry_lookup m stub_loads d]
  have c: "reg_context (test_registry mode p a) = test_context mode p a" for mode p a
    by (simp add: test_registry_def register_def ToolRegistry_def)
  have h: "call_handler (test_registry mode p a) (touch_tool ''write_file'' True) (JObj []) [] =
            (Inr ''done'', test_registry mode p a, [''write_file''])" for mode p a
    by (simp add: call_handler_def touch_tool_def c test_context_def test_registry_def register_def ToolRegistry_def)
  show ?thesis
    using g [of READ_ONLY ON_REQUEST "Inr True" "[]" "[]"]
          g [of WORKSPACE_WRITE NEVER "Inr True" "[]" "[]"]
          g [of WORKSPACE_WRITE ON_REQUEST "Inr False" "[]" "[]"]
          g [of WORKSPACE_WRITE ALWAYS "Inl (OtherError ''not asked'')" "[]" "[]"]
    by (simp add: c h test_context_def)
qed

text \<open>
  With a read-only sandbox and approval policy never together, a mutating call gets the
  sandbox result, not the approval result.
\<close>

theorem execute_never_policy_counterexample:
  "approval_policy (reg_context (test_registry READ_ONLY NEVER (Inr True))) = NEVER \<and>
   mutating (the (map_of (tools (test_registry READ_ONLY NEVER (Inr True))) ''write_file'')) \<and>
   fst (execute stub_lib (test_registry READ_ONLY NEVER (Inr True)) ''write_file'' ''{}'' [])
     = Inr ''blocked by sandbox policy: read-only'' \<and>
   fst (execute stub_lib (test_registry READ_ONLY NEVER (Inr True)) ''write_file'' ''{}'' [])
     \<noteq> Inr ''blocked by approval policy: never''"
  by (simp add: execute_def test_registry_def register_def ToolRegistry_def touch_tool_def
      test_context_def stub_lib_def)

section \<open>Faults at the registry boundary\<close>








section \<open>The tools of a subagent\<close>

lemma set_update_subset: "set (AList.update k v al) \<subseteq> insert (k, v) (set al)"
  by (induction al) auto

lemma register_read_only_context:
  "reg_context (register_read_only registry ts) = reg_context registry"
  by (induction registry ts rule: register_read_only.induct) (simp_all add: register_def)

lemma register_read_only_tools:
  assumes "\<forall>(k, t) \<in> set (tools registry). k = name t \<and> \<not> mutating t \<and> k \<noteq> ''update_plan''"
  shows "\<forall>(k, t) \<in> set (tools (register_read_only registry ts)).
           k = name t \<and> \<not> mutating t \<and> k \<noteq> ''update_plan''"
  using assms
proof (induction registry ts rule: register_read_only.induct)
  case (1 registry)
  then show ?case by simp
next
  case (2 registry tool rest)
  show ?case
  proof (cases "mutating tool \<or> name tool = ''update_plan''")
    case True
    then show ?thesis using 2 by auto
  next
    case False
    have "\<forall>(k, t) \<in> set (tools (register registry tool)).
            k = name t \<and> \<not> mutating t \<and> k \<noteq> ''update_plan''"
      using False "2.prems" set_update_subset [of "name tool" tool "tools registry"]
      by (auto simp: register_def)
    then show ?thesis using False "2.IH"(3) by simp
  qed
qed

text \<open>
  C4. Whatever the parent registry and its context are, no tool of the registry built
  for a subagent is mutating, none is named \<^verbatim>\<open>update_plan\<close>, no tool is registered
  under that name, and the context of the registry has the read-only sandbox and the
  approval policy never.
\<close>

theorem subagent_tools_read_only:
  "(\<forall>(k, t) \<in> set (tools (build_subagent_tools parent_tools)). \<not> mutating t \<and> name t \<noteq> ''update_plan'') \<and>
   (\<forall>t \<in> set (list_tools (build_subagent_tools parent_tools)). \<not> mutating t \<and> name t \<noteq> ''update_plan'') \<and>
   map_of (tools (build_subagent_tools parent_tools)) ''update_plan'' = None \<and>
   sandbox_mode (reg_context (build_subagent_tools parent_tools)) = READ_ONLY \<and>
   approval_policy (reg_context (build_subagent_tools parent_tools)) = NEVER"
proof -
  let ?child = "build_subagent_tools parent_tools"
  have inv: "\<forall>(k, t) \<in> set (tools ?child). k = name t \<and> \<not> mutating t \<and> k \<noteq> ''update_plan''"
    unfolding build_subagent_tools_def
    by (rule register_read_only_tools) (simp add: ToolRegistry_def)
  have a: "\<forall>(k, t) \<in> set (tools ?child). \<not> mutating t \<and> name t \<noteq> ''update_plan''"
    using inv by auto
  have b: "\<forall>t \<in> set (list_tools ?child). \<not> mutating t \<and> name t \<noteq> ''update_plan''"
  proof
    fix t assume "t \<in> set (list_tools ?child)"
    then obtain n where n: "n \<in> fst ` set (tools ?child)" and t: "t = the (map_of (tools ?child) n)"
      by (auto simp: list_tools_def)
    from n obtain t' where "map_of (tools ?child) n = Some t'"
      by (metis domD dom_map_of_conv_image_fst)
    with t have "(n, t) \<in> set (tools ?child)" by (simp add: map_of_SomeD)
    with a show "\<not> mutating t \<and> name t \<noteq> ''update_plan''" by auto
  qed
  have c: "map_of (tools ?child) ''update_plan'' = None"
  proof (cases "map_of (tools ?child) ''update_plan''")
    case None then show ?thesis .
  next
    case (Some t)
    then have "(''update_plan'', t) \<in> set (tools ?child)" by (rule map_of_SomeD)
    with inv show ?thesis by auto
  qed
  have d: "reg_context ?child = sub_context (reg_context parent_tools)"
    by (simp add: build_subagent_tools_def register_read_only_context ToolRegistry_def)
  show ?thesis using a b c d by (simp add: sub_context_def)
qed

theorem subagent_tools_read_only_witness:
  "list_tool_names full_access_parent = [''read_file'', ''update_plan'', ''write_file''] \<and>
   sandbox_mode (reg_context full_access_parent) = DANGER_FULL_ACCESS \<and>
   approval_policy (reg_context full_access_parent) = ALWAYS \<and>
   list_tool_names (build_subagent_tools full_access_parent) = [''read_file''] \<and>
   list_all (\<lambda>t. \<not> mutating t) (list_tools (build_subagent_tools full_access_parent)) \<and>
   map_of (tools (build_subagent_tools full_access_parent)) ''update_plan'' = None \<and>
   sandbox_mode (reg_context (build_subagent_tools full_access_parent)) = READ_ONLY \<and>
   approval_policy (reg_context (build_subagent_tools full_access_parent)) = NEVER"
proof -
  have p: "list_tool_names full_access_parent = [''read_file'', ''update_plan'', ''write_file'']"
    by (simp add: full_access_parent_def list_tool_names_def list_tools_def register_def test_registry_def
        ToolRegistry_def touch_tool_def update_plan_tool_def)
  have c: "sandbox_mode (reg_context full_access_parent) = DANGER_FULL_ACCESS"
          "approval_policy (reg_context full_access_parent) = ALWAYS"
    by (simp_all add: full_access_parent_def register_def test_registry_def ToolRegistry_def test_context_def)
  have n: "list_tool_names (build_subagent_tools full_access_parent) = [''read_file'']"
    by (simp add: full_access_parent_def list_tool_names_def list_tools_def build_subagent_tools_def
        register_def test_registry_def ToolRegistry_def touch_tool_def update_plan_tool_def)
  from subagent_tools_read_only [of full_access_parent]
  show ?thesis using p c n by (simp add: list_all_iff)
qed

section \<open>The plan update\<close>

lemma normalize_items_valid:
  "list_all (item_validates lib) items \<Longrightarrow>
     normalize_items lib items acc = Inr (acc @ map (normalized_item lib) items)"
  by (induction items arbitrary: acc)
     (simp_all add: item_validates_def normalized_item_def field_text_def Let_def)

lemma normalize_items_invalid:
  "\<not> list_all (item_validates lib) items \<Longrightarrow>
     \<exists>msg \<in> plan_errors. normalize_items lib items acc = Inl msg"
proof (induction items arbitrary: acc)
  case Nil
  then show ?case by simp
next
  case (Cons item rest)
  show ?case
  proof (cases "item_validates lib item")
    case True
    with Cons.prems have "\<not> list_all (item_validates lib) rest" by simp
    from Cons.IH [OF this] True show ?thesis
      by (simp add: item_validates_def field_text_def Let_def)
  next
    case False
    then show ?thesis
      by (auto simp: item_validates_def field_text_def Let_def plan_errors_def)
  qed
qed

text \<open>
  C10 (as amended). The handler of \<^verbatim>\<open>update_plan\<close> never raises and leaves the
  world alone. When the payload validates (a list of objects, each with a step whose
  text, trimmed by \<^verbatim>\<open>str.strip()\<close>, is not empty and a status whose text, so
  trimmed, is one of the three), the
  plan becomes the list of the normalized items. Otherwise the handler returns one of
  its four error texts and the plan it returns is the plan of the context, unchanged.
\<close>

theorem update_plan_atomic:
  "(payload_validates lib args \<longrightarrow>
      update_plan lib ctx args w =
        (Inr (dumps_ok (length (the (payload_items args)))),
         map (normalized_item lib) (the (payload_items args)), w)) \<and>
   (\<not> payload_validates lib args \<longrightarrow>
      (\<exists>msg \<in> plan_errors. update_plan lib ctx args w = (Inr msg, plan ctx, w)))"
proof (cases "dict_get args ''plan'' JNull")
  case (JList items)
  show ?thesis
  proof (cases "list_all (item_validates lib) items")
    case True
    then show ?thesis
      using JList by (simp add: update_plan_def payload_validates_def payload_items_def normalize_items_valid)
  next
    case False
    from normalize_items_invalid [OF this, of "[]"] show ?thesis
      using JList False by (auto simp: update_plan_def payload_validates_def payload_items_def)
  qed
qed (simp_all add: update_plan_def payload_validates_def payload_items_def plan_errors_def)

lemma stub_strip: "py_strip stub_lib = latin1_strip"
  by (simp add: stub_lib_def)

lemma strip_examples:
  "latin1_strip ''None'' = ''None''" "latin1_strip ''pending'' = ''pending''" "latin1_strip ''completed'' = ''completed''"
  "latin1_strip ''in_progress'' = ''in_progress''" "latin1_strip ''inspect'' = ''inspect''"
  "latin1_strip ''implement'' = ''implement''" "latin1_strip ''started'' = ''started''"
  "latin1_strip '' pending '' = ''pending''"
  by (simp_all add: latin1_strip_def is_latin1_space_def)

theorem update_plan_atomic_witness:
  "payload_validates stub_lib two_step_payload \<and>
   update_plan stub_lib planned_context two_step_payload [] =
     (Inr (dumps_ok 2),
      [\<lparr> step = ''inspect'', status = ''completed'' \<rparr>, \<lparr> step = ''implement'', status = ''in_progress'' \<rparr>], []) \<and>
   \<not> payload_validates stub_lib half_valid_payload \<and>
   snd (update_plan stub_lib planned_context half_valid_payload []) =
     ([\<lparr> step = ''old'', status = ''pending'' \<rparr>], [])"
proof -
  have v: "payload_validates stub_lib two_step_payload"
    by (simp add: payload_validates_def payload_items_def two_step_payload_def item_validates_def
        field_text_def stub_strip strip_examples)
  have i: "\<not> payload_validates stub_lib half_valid_payload"
    by (simp add: payload_validates_def payload_items_def half_valid_payload_def item_validates_def
        field_text_def stub_strip strip_examples)
  have n: "map (normalized_item stub_lib) (the (payload_items two_step_payload)) =
           [\<lparr> step = ''inspect'', status = ''completed'' \<rparr>, \<lparr> step = ''implement'', status = ''in_progress'' \<rparr>]"
          "length (the (payload_items two_step_payload)) = 2"
    by (simp_all add: payload_items_def two_step_payload_def normalized_item_def field_text_def stub_strip strip_examples)
  have pl: "plan planned_context = [\<lparr> step = ''old'', status = ''pending'' \<rparr>]"
    by (simp add: planned_context_def)
  from update_plan_atomic [of stub_lib two_step_payload planned_context "[]"]
       update_plan_atomic [of stub_lib half_valid_payload planned_context "[]"]
  show ?thesis using v i n pl by auto
qed

text \<open>
  A step that is one no-break space is empty once trimmed: the handler refuses it and
  the plan stays.
\<close>

lemma update_plan_no_break_space:
  "update_plan stub_lib planned_context no_break_space_payload [] =
     (Inr ''plan step cannot be empty'', [\<lparr> step = ''old'', status = ''pending'' \<rparr>], [])"
  by (simp add: update_plan_def no_break_space_payload_def stub_strip latin1_strip_def
      is_latin1_space_def planned_context_def)

text \<open>
  An item whose step is \<^verbatim>\<open>null\<close> has no non-empty step, and a status written
  with spaces around it is none of the three; yet the handler accepts both: the text of
  \<^verbatim>\<open>None\<close> is the step of the first, the trimmed status that of the second, and
  the plan is replaced.
\<close>

theorem update_plan_null_step_counterexample:
  "\<not> well_formed_payload null_step_payload \<and>
   snd (update_plan stub_lib (test_context WORKSPACE_WRITE ON_REQUEST (Inr True)) null_step_payload [])
     = ([\<lparr> step = ''None'', status = ''pending'' \<rparr>], []) \<and>
   \<not> well_formed_payload padded_status_payload \<and>
   snd (update_plan stub_lib (test_context WORKSPACE_WRITE ON_REQUEST (Inr True)) padded_status_payload [])
     = ([\<lparr> step = ''inspect'', status = ''pending'' \<rparr>], []) \<and>
   plan (test_context WORKSPACE_WRITE ON_REQUEST (Inr True)) = []"
  by (simp add: well_formed_payload_def well_formed_item_def payload_items_def null_step_payload_def
      padded_status_payload_def update_plan_def stub_strip strip_examples test_context_def)

section \<open>Tools contributed by plugins and MCP servers\<close>

lemma count_eq_simps [simp]:
  "count_eq x [] = 0"
  "count_eq x (xs @ ys) = count_eq x xs + count_eq x ys"
  "count_eq x (y # ys) = (if y = x then 1 else 0) + count_eq x ys"
  by (simp_all add: count_eq_def)

lemma wf_registry_register: "wf_registry reg \<Longrightarrow> wf_registry (register reg t)"
  using set_update_subset [of "name t" t "tools reg"]
  by (auto simp: wf_registry_def register_def distinct_update list_all_iff)

lemma wf_list_tool_names:
  assumes "wf_registry reg"
  shows "set (list_tool_names reg) = fst ` set (tools reg)"
proof -
  have "name (the (map_of (tools reg) n)) = n" if "n \<in> fst ` set (tools reg)" for n
  proof -
    from that obtain t where t: "map_of (tools reg) n = Some t"
      by (metis domD dom_map_of_conv_image_fst)
    then have "(n, t) \<in> set (tools reg)" by (rule map_of_SomeD)
    with assms have "n = name t" by (auto simp: wf_registry_def list_all_iff)
    with t show ?thesis by simp
  qed
  then have "map (\<lambda>n. name (the (map_of (tools reg) n))) (sort (map fst (tools reg))) = sort (map fst (tools reg))"
    by (intro map_idI) simp
  then have "map name (list_tools reg) = sort (map fst (tools reg))"
    by (simp add: list_tools_def comp_def)
  then show ?thesis by (simp add: list_tool_names_def)
qed

lemma duplicate_error_inj [simp]: "duplicate_error m = duplicate_error n \<longleftrightarrow> m = n"
  by (simp add: duplicate_error_def)

lemma load_specs_facts:
  assumes "ex = fst ` set (tools reg)" and "wf_registry reg"
      and "load_specs bh specs (reg, ex, res) = (reg', ex', res')"
  shows "ex' = fst ` set (tools reg') \<and> ex' = ex \<union> namespaced_name ` set specs \<and> wf_registry reg' \<and>
         reg_context reg' = reg_context reg \<and>
         commands res' = commands res \<and> skills res' = skills res \<and>
         (\<forall>n. map_of (tools reg') n =
                (if n \<in> ex then map_of (tools reg) n
                 else map_option (plugin_tool bh) (find (\<lambda>s. namespaced_name s = n) specs))) \<and>
         (\<forall>e. count_eq e (errors res') = count_eq e (errors res) +
                (if \<exists>n. e = duplicate_error n
                 then length (filter (\<lambda>s. duplicate_error (namespaced_name s) = e) specs)
                      - (if \<exists>n \<in> ex. e = duplicate_error n then 0 else 1)
                 else 0)) \<and>
         (\<forall>n. count_eq n (tool_names res') = count_eq n (tool_names res) +
                (if n \<notin> ex \<and> n \<in> namespaced_name ` set specs then 1 else 0))"
  using assms
proof (induction specs arbitrary: reg ex res)
  case Nil
  then show ?case by (auto simp: map_of_eq_None_iff)
next
  case (Cons spec rest)
  show ?case
  proof (cases "namespaced_name spec \<in> ex")
    case True
    with Cons.prems(3) have
      step: "load_specs bh rest (reg, ex, res \<lparr> errors := errors res @ [duplicate_error (namespaced_name spec)] \<rparr>) = (reg', ex', res')"
      by (simp add: duplicate_error_def)
    from Cons.IH [OF Cons.prems(1) Cons.prems(2) step] True show ?thesis
      by (auto simp: )
  next
    case False
    let ?reg1 = "register reg (plugin_tool bh spec)"
    let ?ex1 = "insert (namespaced_name spec) ex"
    from False Cons.prems(3) have
      step: "load_specs bh rest (?reg1, ?ex1, res \<lparr> tool_names := tool_names res @ [namespaced_name spec] \<rparr>) = (reg', ex', res')"
      by simp
    have nm: "name (plugin_tool bh spec) = namespaced_name spec" by (simp add: plugin_tool_def)
    have e1: "?ex1 = fst ` set (tools ?reg1)"
      using Cons.prems(1) by (simp add: register_def dom_update nm)
    have w1: "wf_registry ?reg1" using Cons.prems(2) by (rule wf_registry_register)
    have m1: "map_of (tools ?reg1) n = (if n = namespaced_name spec then Some (plugin_tool bh spec) else map_of (tools reg) n)" for n
      by (simp add: register_def update_conv' nm)
    have c1: "reg_context ?reg1 = reg_context reg" by (simp add: register_def)
    from Cons.IH [OF e1 w1 step] False m1 c1 show ?thesis
      apply (intro conjI)
              apply simp
             apply auto[1]
            apply simp
           apply simp
          apply simp
         apply simp
        apply (auto)[1]
       apply (auto)[1]
      apply (auto)[1]
      done
  qed
qed

lemma find_append_case:
  "List.find P (xs @ ys) = (case List.find P xs of None \<Rightarrow> List.find P ys | Some x \<Rightarrow> Some x)"
  by (induction xs) auto

lemma all_specs_Cons:
  "all_specs lib ps (m # ms) =
     (case parse_manifest lib ps m of Inl exc \<Rightarrow> [] | Inr parsed \<Rightarrow> pm_tools parsed) @ all_specs lib ps ms"
  by (simp add: all_specs_def)

lemma manifest_error_not_duplicate:
  "''invalid plugin manifest `'' @ x \<noteq> duplicate_error n"
  by (simp add: duplicate_error_def)

lemma count_dup_specs:
  "count_eq (duplicate_error n) (errors res') = count_eq (duplicate_error n) (errors res) +
      (if \<exists>m. duplicate_error n = duplicate_error m
       then length (filter (\<lambda>s. duplicate_error (namespaced_name s) = duplicate_error n) specs)
            - (if \<exists>m \<in> ex. duplicate_error n = duplicate_error m then 0 else 1)
       else 0)
   \<Longrightarrow> count_eq (duplicate_error n) (errors res') = count_eq (duplicate_error n) (errors res) +
      (length (filter (\<lambda>s. namespaced_name s = n) specs) - (if n \<in> ex then 0 else 1))"
  by (auto split: if_splits)

lemma load_manifests_facts:
  assumes "ex = fst ` set (tools reg)" and "wf_registry reg"
      and "load_manifests lib ps bh ms (reg, ex, res) = (reg', ex', res')"
  shows "ex' = fst ` set (tools reg') \<and> ex' = ex \<union> namespaced_name ` set (all_specs lib ps ms) \<and>
         wf_registry reg' \<and> reg_context reg' = reg_context reg \<and>
         (\<forall>n. map_of (tools reg') n =
                (if n \<in> ex then map_of (tools reg) n
                 else map_option (plugin_tool bh) (find (\<lambda>s. namespaced_name s = n) (all_specs lib ps ms)))) \<and>
         (\<forall>n. count_eq (duplicate_error n) (errors res') = count_eq (duplicate_error n) (errors res) +
                (length (filter (\<lambda>s. namespaced_name s = n) (all_specs lib ps ms)) - (if n \<in> ex then 0 else 1))) \<and>
         (\<forall>n. count_eq n (tool_names res') = count_eq n (tool_names res) +
                (if n \<notin> ex \<and> n \<in> namespaced_name ` set (all_specs lib ps ms) then 1 else 0))"
  using assms
proof (induction ms arbitrary: reg ex res)
  case Nil
  then show ?case by (auto simp: map_of_eq_None_iff all_specs_def)
next
  case (Cons m ms)
  show ?case
  proof (cases "parse_manifest lib ps m")
    case (Inl exc)
    define me where "me = ''invalid plugin manifest `'' @ path_str (mf_dir m @ [''apecode_plugin.json''])
                 @ ''`: '' @ exn_str exc"
    have ne: "me \<noteq> duplicate_error n" for n
      unfolding me_def using manifest_error_not_duplicate by simp
    from Inl Cons.prems(3) have step:
      "load_manifests lib ps bh ms (reg, ex, res \<lparr> errors := errors res @ [me] \<rparr>) = (reg', ex', res')"
      by (simp add: me_def)
    have s: "all_specs lib ps (m # ms) = all_specs lib ps ms" using Inl by (simp add: all_specs_Cons)
    note f = Cons.IH [OF Cons.prems(1) Cons.prems(2) step]
    show ?thesis unfolding s using f ne by auto
  next
    case (Inr parsed)
    obtain reg1 ex1 res1 where l: "load_specs bh (pm_tools parsed) (reg, ex, res) = (reg1, ex1, res1)"
      by (metis prod_cases3)
    let ?res2 = "res1 \<lparr> commands := commands res1 @ pm_commands parsed, skills := skills res1 @ pm_skills parsed \<rparr>"
    from Inr l Cons.prems(3) have step: "load_manifests lib ps bh ms (reg1, ex1, ?res2) = (reg', ex', res')"
      by simp
    note f1 = load_specs_facts [OF Cons.prems(1) Cons.prems(2) l]
    from f1 have e1: "ex1 = fst ` set (tools reg1)" and w1: "wf_registry reg1" by blast+
    have r: "errors ?res2 = errors res1" "tool_names ?res2 = tool_names res1" by simp_all
    note f2 = Cons.IH [OF e1 w1 step, unfolded r]
    have s: "all_specs lib ps (m # ms) = pm_tools parsed @ all_specs lib ps ms"
      using Inr by (simp add: all_specs_Cons)
    have x1: "ex1 = ex \<union> namespaced_name ` set (pm_tools parsed)" using f1 by blast
    have c1: "count_eq (duplicate_error n) (errors res1) = count_eq (duplicate_error n) (errors res) +
                (length (filter (\<lambda>s. namespaced_name s = n) (pm_tools parsed)) - (if n \<in> ex then 0 else 1))" for n
      using f1 by (intro count_dup_specs) blast
    have A: "ex' = fst ` set (tools reg')" using f2 by blast
    have B: "ex' = ex \<union> namespaced_name ` set (all_specs lib ps (m # ms))"
      using f2 x1 unfolding s by auto
    have C: "wf_registry reg'" using f2 by blast
    have D: "reg_context reg' = reg_context reg" using f1 f2 by auto
    have E: "map_of (tools reg') n =
                (if n \<in> ex then map_of (tools reg) n
                 else map_option (plugin_tool bh) (find (\<lambda>s. namespaced_name s = n) (all_specs lib ps (m # ms))))" for n
    proof -
      have m2: "map_of (tools reg') n =
                (if n \<in> ex1 then map_of (tools reg1) n
                 else map_option (plugin_tool bh) (find (\<lambda>s. namespaced_name s = n) (all_specs lib ps ms)))"
        using f2 by blast
      have m1: "map_of (tools reg1) n =
                (if n \<in> ex then map_of (tools reg) n
                 else map_option (plugin_tool bh) (find (\<lambda>s. namespaced_name s = n) (pm_tools parsed)))"
        using f1 by blast
      show ?thesis
      proof (cases "n \<in> ex")
        case True
        then show ?thesis using m1 m2 x1 by simp
      next
        case False
        show ?thesis
        proof (cases "find (\<lambda>s. namespaced_name s = n) (pm_tools parsed)")
          case None
          then have "n \<notin> namespaced_name ` set (pm_tools parsed)" by (auto simp: find_None_iff)
          with False have "n \<notin> ex1" using x1 by simp
          then show ?thesis using m2 False None unfolding s by (simp add: find_append_case)
        next
          case (Some sp)
          then have "n \<in> namespaced_name ` set (pm_tools parsed)" by (auto simp: find_Some_iff)
          then have "n \<in> ex1" using x1 by simp
          then show ?thesis using m1 m2 False Some unfolding s by (simp add: find_append_case)
        qed
      qed
    qed
    have F: "count_eq (duplicate_error n) (errors res') = count_eq (duplicate_error n) (errors res) +
                (length (filter (\<lambda>s. namespaced_name s = n) (all_specs lib ps (m # ms))) - (if n \<in> ex then 0 else 1))" for n
    proof -
      have c2: "count_eq (duplicate_error n) (errors res') = count_eq (duplicate_error n) (errors res1) +
                (length (filter (\<lambda>s. namespaced_name s = n) (all_specs lib ps ms)) - (if n \<in> ex1 then 0 else 1))"
        using f2 by blast
      have iff: "n \<in> ex1 \<longleftrightarrow> n \<in> ex \<or> filter (\<lambda>s. namespaced_name s = n) (pm_tools parsed) \<noteq> []"
        using x1 by (auto simp: filter_empty_conv)
      show ?thesis
        using c1 [of n] c2 iff unfolding s
        by (cases "filter (\<lambda>s. namespaced_name s = n) (pm_tools parsed)") (auto split: if_splits)
    qed
    have G: "count_eq n (tool_names res') = count_eq n (tool_names res) +
                (if n \<notin> ex \<and> n \<in> namespaced_name ` set (all_specs lib ps (m # ms)) then 1 else 0)" for n
    proof -
      have t2: "count_eq n (tool_names res') = count_eq n (tool_names res1) +
                (if n \<notin> ex1 \<and> n \<in> namespaced_name ` set (all_specs lib ps ms) then 1 else 0)"
        using f2 by blast
      have t1: "count_eq n (tool_names res1) = count_eq n (tool_names res) +
                (if n \<notin> ex \<and> n \<in> namespaced_name ` set (pm_tools parsed) then 1 else 0)"
        using f1 by blast
      show ?thesis using t1 t2 x1 unfolding s by auto
    qed
    show ?thesis using A B C D E F G by blast
  qed
qed

lemma strip_more:
  "latin1_strip ''echo_text'' = ''echo_text''" "latin1_strip ''Echo input text'' = ''Echo input text''"
  "latin1_strip ''EchoPlugin'' = ''EchoPlugin''" "latin1_strip [] = []"
  by (simp_all add: latin1_strip_def is_latin1_space_def)

lemma parse_echo: "parse_manifest stub_lib no_parsers echo_manifest =
   Inr \<lparr> pm_plugin_name = ''EchoPlugin'', pm_tools = [echo_spec], pm_commands = [], pm_skills = [] \<rparr>"
  by (simp add: parse_manifest_def echo_manifest_def parse_tools_def parse_tool_item_def echo_item_def
      no_parsers_def stub_strip strip_more echo_spec_def Let_def)

lemma sanitize_examples:
  "sanitize_name ''EchoPlugin'' = ''echoplugin''" "sanitize_name ''echo_text'' = ''echo_text''"
  by code_simp+

lemma echo_namespaced: "namespaced_name echo_spec = ''echoplugin__echo_text''"
  by (simp add: namespaced_name_def echo_spec_def sanitize_examples)

lemma all_specs_echo:
  "all_specs stub_lib no_parsers [echo_manifest, echo_manifest] = [echo_spec, echo_spec]"
  "all_specs stub_lib no_parsers [echo_manifest] = [echo_spec]"
  by (simp_all add: all_specs_def parse_echo)

lemma load_echo_twice:
  "load_plugins stub_lib no_parsers echo_handler (ToolRegistry (test_context READ_ONLY NEVER (Inr True)))
     [echo_manifest, echo_manifest] =
   (register (ToolRegistry (test_context READ_ONLY NEVER (Inr True))) (plugin_tool echo_handler echo_spec),
    \<lparr> tool_names = [''echoplugin__echo_text''], commands = [], skills = [],
      errors = [''duplicate plugin tool ignored: echoplugin__echo_text''] \<rparr>)"
  by (simp add: load_plugins_def parse_echo echo_namespaced list_tool_names_def list_tools_def ToolRegistry_def)

lemma load_echo_once:
  "load_plugins stub_lib no_parsers echo_handler (ToolRegistry (test_context READ_ONLY NEVER (Inr True)))
     [echo_manifest] =
   (register (ToolRegistry (test_context READ_ONLY NEVER (Inr True))) (plugin_tool echo_handler echo_spec),
    \<lparr> tool_names = [''echoplugin__echo_text''], commands = [], skills = [], errors = [] \<rparr>)"
  by (simp add: load_plugins_def parse_echo echo_namespaced list_tool_names_def list_tools_def ToolRegistry_def)

text \<open>
  C8. Loading plugins into a registry whose tools are stored under their own names:
  a name registered before the load keeps its tool; any other name is bound to the tool
  of the first declaration, in loading order, that is namespaced to it; every further
  declaration with that name is dropped and reported by one error of its own (all
  declarations of the name when it was registered before, all but the first otherwise);
  the name is listed once among the loaded tools; and the registry still holds one tool
  per name.
\<close>

theorem load_plugins_first_wins:
  assumes "wf_registry registry"
      and "load_plugins lib ps bh registry manifests = (registry', result)"
  shows "(\<forall>n. n \<in> fst ` set (tools registry) \<longrightarrow> map_of (tools registry') n = map_of (tools registry) n) \<and>
         (\<forall>n. n \<notin> fst ` set (tools registry) \<longrightarrow>
               map_of (tools registry') n =
                 map_option (plugin_tool bh) (find (\<lambda>s. namespaced_name s = n) (all_specs lib ps manifests))) \<and>
         (\<forall>n. count_eq (duplicate_error n) (errors result) =
               length (filter (\<lambda>s. namespaced_name s = n) (all_specs lib ps manifests))
               - (if n \<in> fst ` set (tools registry) then 0 else 1)) \<and>
         (\<forall>n. count_eq n (tool_names result) =
               (if n \<notin> fst ` set (tools registry) \<and> n \<in> namespaced_name ` set (all_specs lib ps manifests)
                then 1 else 0)) \<and>
         wf_registry registry'"
proof -
  let ?ex = "set (list_tool_names registry)"
  let ?res0 = "\<lparr> tool_names = [], commands = [], skills = [], errors = [] \<rparr>"
  have ex: "?ex = fst ` set (tools registry)" using assms(1) by (rule wf_list_tool_names)
  obtain ex' where l: "load_manifests lib ps bh manifests (registry, ?ex, ?res0) = (registry', ex', result)"
    using assms(2) by (auto simp: load_plugins_def split: prod.splits)
  have z: "errors ?res0 = []" "tool_names ?res0 = []" by simp_all
  note f = load_manifests_facts [OF ex assms(1) l, unfolded z ex]
  show ?thesis using f by simp
qed

lemma parse_tool_item_mutating:
  "parse_tool_item lib dir plugin_name item = Inr spec \<Longrightarrow>
     ts_mutating spec = py_bool (dict_get item ''mutating'' (JBool False))"
  by (auto simp: parse_tool_item_def Let_def split: if_splits sum.splits)

lemma mcp_tool_mutating: "mutating (mcp_tool lib call_tool server raw_tool) = (\<not> mcp_read_only raw_tool)"
  by (simp add: mcp_tool_def Let_def)

lemma echo_tool_fields:
  "name (plugin_tool echo_handler echo_spec) = ''echoplugin__echo_text''"
  "mutating (plugin_tool echo_handler echo_spec) = False"
  "handler (plugin_tool echo_handler echo_spec) ctx args w = (Inr ''echo'', plan ctx, ''echo_text'' # w)"
  by (simp_all add: plugin_tool_def echo_namespaced echo_handler_def) (simp_all add: echo_spec_def)

text \<open>
  C5. The manifest entry of the test suite declares no \<^verbatim>\<open>mutating\<close> flag. The
  loader registers its tool as not mutating, so that in a context with the read-only
  sandbox and the approval policy never the command of the plugin runs. The MCP loader,
  for a tool without annotations, registers it as mutating.
\<close>

theorem plugin_tool_without_flag_is_not_mutating:
  "dict_get echo_item ''mutating'' (JStr ''absent'') = JStr ''absent'' \<and>
   (case load_plugins stub_lib no_parsers echo_handler
           (ToolRegistry (test_context READ_ONLY NEVER (Inr True))) [echo_manifest] of
      (registry', result) \<Rightarrow>
        errors result = [] \<and>
        map (\<lambda>(k, t). (k, mutating t)) (tools registry') = [(''echoplugin__echo_text'', False)] \<and>
        execute stub_lib registry' ''echoplugin__echo_text'' ''{}'' [] = (Inr ''echo'', registry', [''echo_text''])) \<and>
   annotations echo_mcp_tool = None \<and>
   mutating (mcp_tool stub_lib echo_call echo_server echo_mcp_tool)"
  unfolding load_echo_once prod.case
  by (simp add: echo_item_def register_def ToolRegistry_def echo_tool_fields
      execute_def call_handler_def stub_lib_def
      mcp_tool_def mcp_read_only_def echo_mcp_tool_def Let_def)

theorem load_plugins_first_wins_witness:
  "wf_registry (ToolRegistry (test_context READ_ONLY NEVER (Inr True))) \<and>
   all_specs stub_lib no_parsers [echo_manifest, echo_manifest] = [echo_spec, echo_spec] \<and>
   map_of (tools (fst (load_plugins stub_lib no_parsers echo_handler
                        (ToolRegistry (test_context READ_ONLY NEVER (Inr True)))
                        [echo_manifest, echo_manifest]))) ''echoplugin__echo_text''
     = Some (plugin_tool echo_handler echo_spec) \<and>
   count_eq (duplicate_error ''echoplugin__echo_text'')
     (errors (snd (load_plugins stub_lib no_parsers echo_handler
                     (ToolRegistry (test_context READ_ONLY NEVER (Inr True)))
                     [echo_manifest, echo_manifest]))) = 1 \<and>
   count_eq ''echoplugin__echo_text''
     (tool_names (snd (load_plugins stub_lib no_parsers echo_handler
                         (ToolRegistry (test_context READ_ONLY NEVER (Inr True)))
                         [echo_manifest, echo_manifest]))) = 1"
proof -
  let ?R = "ToolRegistry (test_context READ_ONLY NEVER (Inr True))"
  let ?L = "load_plugins stub_lib no_parsers echo_handler ?R [echo_manifest, echo_manifest]"
  have w: "wf_registry ?R" by (simp add: wf_registry_def ToolRegistry_def)
  have l: "?L = (fst ?L, snd ?L)" by simp
  have k: "fst ` set (tools ?R) = {}" by (simp add: ToolRegistry_def)
  from load_plugins_first_wins [OF w l]
  show ?thesis using w by (simp add: all_specs_echo echo_namespaced k)
qed

section \<open>The agent loop\<close>


lemma answered_tool_message [simp]:
  "answered (p # ps) (tool_message p r # ms) = answered ps ms"
  by (simp add: tool_message_def)



lemma answered_assistant_record [simp]:
  "answered [] (assistant_record c # ms) = answered (map call_ident (c_tool_calls c)) ms"
  by (simp add: assistant_record_def)

lemma role_assistant_record [simp]:
  "role (assistant_record c) = RoleAssistant" "tool_calls (assistant_record c) = c_tool_calls c"
  by (simp_all add: assistant_record_def)




lemma hooks_return_fire:
  assumes "hooks_return c"
  shows "fst (fire1 (on_status c) a u) = None" "fst (fire1 (on_thinking c) a u) = None"
        "fst (fire2 (on_tool_call c) a b u) = None" "fst (fire2 (on_tool_result c) a b u) = None"
  using assms by (auto simp: hooks_return_def fire1_def fire2_def split: option.splits)

lemma approval_returns_plan [simp]: "approval_returns (ctx \<lparr> plan := p \<rparr>) = approval_returns ctx"
  by (simp add: approval_returns_def)






subsection \<open>Runs of the example agents\<close>


lemma fixtures_return:
  "hooks_return quiet" "hooks_return counting"
  "approval_returns (reg_context (agent_tools (test_agent m k c)))"
  "always_requests_tool looping_model" "always_requests_tool overflow_model"
  "calls_decodable stub_lib looping_model"
  by (auto simp: hooks_return_def quiet_def counting_def approval_returns_def test_agent_def
      new_agent_def test_registry_def register_def ToolRegistry_def test_context_def
      always_requests_tool_def looping_model_def overflow_model_def calls_decodable_def
      loads_decodes_def call_arguments_def stub_lib_def)

lemma test_agent_fields:
  "cb (test_agent m k c) = c" "max_steps (test_agent m k c) = k" "model (test_agent m k c) = m"
  "(test_agent m k c) \<lparr> cb := c' \<rparr> = test_agent m k c'"
  by (simp_all add: test_agent_def new_agent_def)





subsection \<open>The step budget\<close>









subsection \<open>The observer hooks\<close>

lemma run_tool_calls_agree:
  assumes "agree (a1, e1) (a2, e2)"
  shows "fst (run_tool_calls lib calls (a1, e1)) = fst (run_tool_calls lib calls (a2, e2)) \<and>
         agree (snd (run_tool_calls lib calls (a1, e1))) (snd (run_tool_calls lib calls (a2, e2)))"
  using assms
proof (induction calls arbitrary: a1 e1 a2 e2)
  case Nil
  then show ?case by simp
next
  case (Cons call calls)
  from Cons.prems have h: "hooks_return (cb a1)" "hooks_return (cb a2)"
    and eq: "agent_tools a1 = agent_tools a2" "world e1 = world e2" "messages a1 = messages a2"
    by (simp_all add: agree_def)
  obtain u1 where f1: "fire2 (on_tool_call (cb a1)) (call_name call) (call_arguments call) (ui e1) = (None, u1)"
    using hooks_return_fire(3) [OF h(1)] by (metis prod.collapse)
  obtain v1 where g1: "fire2 (on_tool_call (cb a2)) (call_name call) (call_arguments call) (ui e2) = (None, v1)"
    using hooks_return_fire(3) [OF h(2)] by (metis prod.collapse)
  obtain r reg' w' where
    ex: "execute lib (agent_tools a1) (call_name call) (call_arguments call) (world e1) = (r, reg', w')"
    by (metis prod_cases3)
  show ?case
  proof (cases r)
    case (Inl exc)
    then show ?thesis using f1 g1 ex eq Cons.prems by (simp add: agree_def)
  next
    case (Inr out)
    obtain u2 where f2: "fire2 (on_tool_result (cb a1)) (call_name call) out u1 = (None, u2)"
      using hooks_return_fire(4) [OF h(1)] by (metis prod.collapse)
    obtain v2 where g2: "fire2 (on_tool_result (cb a2)) (call_name call) out v1 = (None, v2)"
      using hooks_return_fire(4) [OF h(2)] by (metis prod.collapse)
    let ?b1 = "a1 \<lparr> agent_tools := reg', messages := messages a1 @ [tool_message (call_ident call) out] \<rparr>"
    let ?b2 = "a2 \<lparr> agent_tools := reg', messages := messages a2 @ [tool_message (call_ident call) out] \<rparr>"
    have "agree (?b1, e1 \<lparr> world := w', ui := u2 \<rparr>) (?b2, e2 \<lparr> world := w', ui := v2 \<rparr>)"
      using Cons.prems by (simp add: agree_def)
    from Cons.IH [OF this] show ?thesis
      using f1 g1 ex eq Inr f2 g2 by simp
  qed
qed

lemma run_steps_agree:
  assumes "agree (a1, e1) (a2, e2)"
  shows "fst (run_steps lib n (a1, e1)) = fst (run_steps lib n (a2, e2)) \<and>
         agree (snd (run_steps lib n (a1, e1))) (snd (run_steps lib n (a2, e2)))"
  using assms
proof (induction n arbitrary: a1 e1 a2 e2)
  case 0
  then show ?case by (simp add: agree_def)
next
  case (Suc n)
  from Suc.prems have h: "hooks_return (cb a1)" "hooks_return (cb a2)"
    and eq: "model a1 = model a2" "agent_tools a1 = agent_tools a2" "world e1 = world e2"
            "messages a1 = messages a2" "requests e1 = requests e2" "max_steps a1 = max_steps a2"
    by (simp_all add: agree_def)
  obtain u1 where f1: "fire1 (on_status (cb a1)) ''Thinking...'' (ui e1) = (None, u1)"
    using hooks_return_fire(1) [OF h(1)] by (metis prod.collapse)
  obtain v1 where g1: "fire1 (on_status (cb a2)) ''Thinking...'' (ui e2) = (None, v1)"
    using hooks_return_fire(1) [OF h(2)] by (metis prod.collapse)
  obtain mr w1 where m: "model a1 (messages a1) (as_openai_tools (agent_tools a1)) (world e1) = (mr, w1)"
    by (metis surj_pair)
  show ?case
  proof (cases mr)
    case (Inl exc)
    then show ?thesis using f1 g1 m eq h by (simp add: agree_def)
  next
    case (Inr c)
    obtain u2 where f2: "fire1 (on_status (cb a1)) [] u1 = (None, u2)"
      using hooks_return_fire(1) [OF h(1)] by (metis prod.collapse)
    obtain v2 where g2: "fire1 (on_status (cb a2)) [] v1 = (None, v2)"
      using hooks_return_fire(1) [OF h(2)] by (metis prod.collapse)
    obtain u3 where f3:
      "(if py_bool (c_reasoning_content c)
        then fire1 (on_thinking (cb a1)) (py_str (py_repr lib) (c_reasoning_content c)) u2
        else (None, u2)) = (None, u3)"
      using hooks_return_fire(2) [OF h(1)] by (metis (full_types) prod.collapse)
    obtain v3 where g3:
      "(if py_bool (c_reasoning_content c)
        then fire1 (on_thinking (cb a2)) (py_str (py_repr lib) (c_reasoning_content c)) v2
        else (None, v2)) = (None, v3)"
      using hooks_return_fire(2) [OF h(2)] by (metis (full_types) prod.collapse)
    let ?b1 = "a1 \<lparr> messages := messages a1 @ [assistant_record c] \<rparr>"
    let ?b2 = "a2 \<lparr> messages := messages a2 @ [assistant_record c] \<rparr>"
    let ?d1 = "e1 \<lparr> world := w1, ui := u3, requests := requests e1 @ [messages a1] \<rparr>"
    let ?d2 = "e2 \<lparr> world := w1, ui := v3, requests := requests e2 @ [messages a2] \<rparr>"
    have ag: "agree (?b1, ?d1) (?b2, ?d2)" using Suc.prems by (simp add: agree_def)
    show ?thesis
    proof (cases "c_tool_calls c = []")
      case True
      then show ?thesis using f1 g1 m eq Inr f2 g2 f3 g3 ag by (simp add: Let_def)
    next
      case False
      obtain x b1' d1' where t1: "run_tool_calls lib (c_tool_calls c) (?b1, ?d1) = (x, b1', d1')"
        by (metis prod_cases3)
      obtain y b2' d2' where t2: "run_tool_calls lib (c_tool_calls c) (?b2, ?d2) = (y, b2', d2')"
        by (metis prod_cases3)
      from run_tool_calls_agree [OF ag, of lib "c_tool_calls c"] t1 t2
      have xy: "x = y" and ag': "agree (b1', d1') (b2', d2')" by simp_all
      have s1: "run_steps lib (Suc n) (a1, e1) =
                  (case x of Some exc \<Rightarrow> (Inl exc, b1', d1') | None \<Rightarrow> run_steps lib n (b1', d1'))"
        using f1 m Inr f2 f3 False t1 by (simp add: Let_def split: option.splits)
      have s2: "run_steps lib (Suc n) (a2, e2) =
                  (case y of Some exc \<Rightarrow> (Inl exc, b2', d2') | None \<Rightarrow> run_steps lib n (b2', d2'))"
        using g1 m eq Inr g2 g3 False t2 by (simp add: Let_def split: option.splits)
      show ?thesis
      proof (cases x)
        case None
        then show ?thesis using s1 s2 xy Suc.IH [OF ag'] by simp
      next
        case (Some exc)
        then show ?thesis using s1 s2 xy ag' by simp
      qed
    qed
  qed
qed

lemma returning_hooks_observable:
  assumes "hooks_return (cb agent)" and "hooks_return c2"
  shows "observable (run lib (agent \<lparr> cb := c2 \<rparr>) user_input (e \<lparr> ui := u2 \<rparr>)) =
         observable (run lib agent user_input e)"
proof -
  let ?a1 = "agent \<lparr> messages := messages agent @ [user_message user_input] \<rparr>"
  let ?a2 = "agent \<lparr> cb := c2, messages := messages agent @ [user_message user_input] \<rparr>"
  have "agree (?a2, e \<lparr> ui := u2 \<rparr>) (?a1, e)" using assms by (simp add: agree_def)
  from run_steps_agree [OF this, of lib "nat (max_steps agent)"]
  show ?thesis
    by (auto simp: observable_def run_def agree_def split: prod.splits)
qed

lemma status_hook_fault:
  assumes "on_status (cb agent) = Some f" and "f ''Thinking...'' (ui e) = (Some exc, u')"
      and "1 \<le> max_steps agent"
  shows "run lib agent user_input e =
           (Inl exc, agent \<lparr> messages := messages agent @ [user_message user_input] \<rparr>, e \<lparr> ui := u' \<rparr>)"
proof -
  from assms(3) obtain n where n: "nat (max_steps agent) = Suc n"
    by (metis Suc_pred' zero_less_nat_eq zless_add1_eq add.commute less_le_trans zero_less_one int_one_le_iff_zero_less)
  show ?thesis using assms(1,2) by (simp add: run_def n fire1_def)
qed

lemma fire_watching:
  "fire1 (on_status (watching c)) a \<lparr> inner = u, raised = None, late = 0 \<rparr> =
     (case fire1 (on_status c) a u of (x, u') \<Rightarrow> (x, \<lparr> inner = u', raised = x, late = 0 \<rparr>))"
  "fire1 (on_thinking (watching c)) a \<lparr> inner = u, raised = None, late = 0 \<rparr> =
     (case fire1 (on_thinking c) a u of (x, u') \<Rightarrow> (x, \<lparr> inner = u', raised = x, late = 0 \<rparr>))"
  "fire2 (on_tool_call (watching c)) a b \<lparr> inner = u, raised = None, late = 0 \<rparr> =
     (case fire2 (on_tool_call c) a b u of (x, u') \<Rightarrow> (x, \<lparr> inner = u', raised = x, late = 0 \<rparr>))"
  "fire2 (on_tool_result (watching c)) a b \<lparr> inner = u, raised = None, late = 0 \<rparr> =
     (case fire2 (on_tool_result c) a b u of (x, u') \<Rightarrow> (x, \<lparr> inner = u', raised = x, late = 0 \<rparr>))"
  by (simp_all add: watching_def fire1_def fire2_def watch1_def watch2_def watch_def
      split: option.splits prod.splits)

lemma run_tool_calls_watched:
  assumes "watch_rel (agent, e) (agentW, eW) None"
  shows "\<exists>fl. fst (run_tool_calls lib calls (agentW, eW)) = fst (run_tool_calls lib calls (agent, e)) \<and>
              watch_rel (snd (run_tool_calls lib calls (agent, e))) (snd (run_tool_calls lib calls (agentW, eW))) fl \<and>
              (\<forall>exc. fl = Some exc \<longrightarrow> fst (run_tool_calls lib calls (agent, e)) = Some exc)"
  using assms
proof (induction calls arbitrary: agent e agentW eW)
  case Nil
  then show ?case by auto
next
  case (Cons call calls)
  from Cons.prems have eq: "model agentW = model agent" "agent_tools agentW = agent_tools agent"
      "max_steps agentW = max_steps agent" "messages agentW = messages agent"
      "world eW = world e" "requests eW = requests e"
    and cbW: "cb agentW = watching (cb agent)"
    and uiW: "ui eW = \<lparr> inner = ui e, raised = None, late = 0 \<rparr>"
    by (simp_all add: watch_rel_def)
  obtain h1 u1 where f1: "fire2 (on_tool_call (cb agent)) (call_name call) (call_arguments call) (ui e) = (h1, u1)"
    by (metis surj_pair)
  have g1: "fire2 (on_tool_call (cb agentW)) (call_name call) (call_arguments call) (ui eW) =
              (h1, \<lparr> inner = u1, raised = h1, late = 0 \<rparr>)"
    using f1 by (simp add: cbW uiW fire_watching)
  show ?case
  proof (cases h1)
    case (Some exc)
    then show ?thesis using f1 g1 eq cbW by (simp add: watch_rel_def)
  next
    case None
    obtain r reg' w' where
      ex: "execute lib (agent_tools agent) (call_name call) (call_arguments call) (world e) = (r, reg', w')"
      by (metis prod_cases3)
    show ?thesis
    proof (cases r)
      case (Inl exc)
      then show ?thesis using f1 g1 None ex eq cbW by (simp add: watch_rel_def)
    next
      case (Inr out)
      obtain h2 u2 where f2: "fire2 (on_tool_result (cb agent)) (call_name call) out u1 = (h2, u2)"
        by (metis surj_pair)
      have g2: "fire2 (on_tool_result (cb agentW)) (call_name call) out \<lparr> inner = u1, raised = None, late = 0 \<rparr> =
                  (h2, \<lparr> inner = u2, raised = h2, late = 0 \<rparr>)"
        using f2 by (simp add: cbW fire_watching)
      show ?thesis
      proof (cases h2)
        case (Some exc)
        then show ?thesis using f1 g1 None ex Inr f2 g2 eq cbW by (simp add: watch_rel_def)
      next
        case None2: None
        let ?b = "agent \<lparr> agent_tools := reg', messages := messages agent @ [tool_message (call_ident call) out] \<rparr>"
        let ?bW = "agentW \<lparr> agent_tools := reg', messages := messages agentW @ [tool_message (call_ident call) out] \<rparr>"
        have "watch_rel (?b, e \<lparr> world := w', ui := u2 \<rparr>)
                (?bW, eW \<lparr> world := w', ui := \<lparr> inner = u2, raised = None, late = 0 \<rparr> \<rparr>) None"
          using eq cbW by (simp add: watch_rel_def)
        from Cons.IH [OF this] show ?thesis
          using f1 g1 None ex Inr f2 g2 None2 eq by simp
      qed
    qed
  qed
qed

lemma run_steps_watched:
  assumes "watch_rel (agent, e) (agentW, eW) None"
  shows "\<exists>fl. fst (run_steps lib n (agentW, eW)) = fst (run_steps lib n (agent, e)) \<and>
              watch_rel (snd (run_steps lib n (agent, e))) (snd (run_steps lib n (agentW, eW))) fl \<and>
              (\<forall>exc. fl = Some exc \<longrightarrow> fst (run_steps lib n (agent, e)) = Inl exc)"
  using assms
proof (induction n arbitrary: agent e agentW eW)
  case 0
  then show ?case by (auto simp: watch_rel_def)
next
  case (Suc n)
  from Suc.prems have eq: "model agentW = model agent" "agent_tools agentW = agent_tools agent"
      "max_steps agentW = max_steps agent" "messages agentW = messages agent"
      "world eW = world e" "requests eW = requests e"
    and cbW: "cb agentW = watching (cb agent)"
    and uiW: "ui eW = \<lparr> inner = ui e, raised = None, late = 0 \<rparr>"
    by (simp_all add: watch_rel_def)
  obtain h1 u1 where f1: "fire1 (on_status (cb agent)) ''Thinking...'' (ui e) = (h1, u1)"
    by (metis surj_pair)
  have g1: "fire1 (on_status (cb agentW)) ''Thinking...'' (ui eW) = (h1, \<lparr> inner = u1, raised = h1, late = 0 \<rparr>)"
    using f1 by (simp add: cbW uiW fire_watching)
  show ?case
  proof (cases h1)
    case (Some exc)
    then show ?thesis using f1 g1 eq cbW by (simp add: watch_rel_def)
  next
    case None
    obtain mr w1 where m: "model agent (messages agent) (as_openai_tools (agent_tools agent)) (world e) = (mr, w1)"
      by (metis surj_pair)
    show ?thesis
    proof (cases mr)
      case (Inl exc)
      then show ?thesis using f1 g1 None m eq cbW by (simp add: watch_rel_def)
    next
      case (Inr c)
      obtain h2 u2 where f2: "fire1 (on_status (cb agent)) [] u1 = (h2, u2)"
        by (metis surj_pair)
      have g2: "fire1 (on_status (cb agentW)) [] \<lparr> inner = u1, raised = None, late = 0 \<rparr> =
                  (h2, \<lparr> inner = u2, raised = h2, late = 0 \<rparr>)"
        using f2 by (simp add: cbW fire_watching)
      show ?thesis
      proof (cases h2)
        case (Some exc)
        then show ?thesis using f1 g1 None m Inr f2 g2 eq cbW by (simp add: watch_rel_def)
      next
        case None2: None
        obtain h3 u3 where f3:
          "(if py_bool (c_reasoning_content c)
            then fire1 (on_thinking (cb agent)) (py_str (py_repr lib) (c_reasoning_content c)) u2
            else (None, u2)) = (h3, u3)"
          by (metis surj_pair)
        have g3:
          "(if py_bool (c_reasoning_content c)
            then fire1 (on_thinking (cb agentW)) (py_str (py_repr lib) (c_reasoning_content c))
                   \<lparr> inner = u2, raised = None, late = 0 \<rparr>
            else (None, \<lparr> inner = u2, raised = None, late = 0 \<rparr>)) =
           (h3, \<lparr> inner = u3, raised = h3, late = 0 \<rparr>)"
          using f3 by (auto simp: cbW fire_watching split: if_splits)
        show ?thesis
        proof (cases h3)
          case (Some exc)
          then show ?thesis using f1 g1 None m Inr f2 g2 None2 f3 g3 eq cbW by (simp add: watch_rel_def)
        next
          case None3: None
          let ?b = "agent \<lparr> messages := messages agent @ [assistant_record c] \<rparr>"
          let ?bW = "agentW \<lparr> messages := messages agentW @ [assistant_record c] \<rparr>"
          let ?d = "e \<lparr> world := w1, ui := u3, requests := requests e @ [messages agent] \<rparr>"
          let ?dW = "eW \<lparr> world := w1, ui := \<lparr> inner = u3, raised = None, late = 0 \<rparr>,
                          requests := requests eW @ [messages agentW] \<rparr>"
          have rel: "watch_rel (?b, ?d) (?bW, ?dW) None" using eq cbW by (simp add: watch_rel_def)
          have s: "run_steps lib (Suc n) (agent, e) =
                     (if c_tool_calls c = []
                      then (Inr (coerce_text (py_repr lib) (c_content c)), ?b, ?d)
                      else (case run_tool_calls lib (c_tool_calls c) (?b, ?d) of
                              (Some exc, agent2, e2) \<Rightarrow> (Inl exc, agent2, e2)
                            | (None, agent2, e2) \<Rightarrow> run_steps lib n (agent2, e2)))"
            using f1 None m Inr f2 None2 f3 None3 by (simp add: Let_def)
          have sW: "run_steps lib (Suc n) (agentW, eW) =
                     (if c_tool_calls c = []
                      then (Inr (coerce_text (py_repr lib) (c_content c)), ?bW, ?dW)
                      else (case run_tool_calls lib (c_tool_calls c) (?bW, ?dW) of
                              (Some exc, agent2, e2) \<Rightarrow> (Inl exc, agent2, e2)
                            | (None, agent2, e2) \<Rightarrow> run_steps lib n (agent2, e2)))"
            using g1 None m Inr g2 None2 g3 None3 eq by (simp add: Let_def)
          show ?thesis
          proof (cases "c_tool_calls c = []")
            case True
            then show ?thesis unfolding s sW using rel by auto
          next
            case False
            obtain x b' d' where t: "run_tool_calls lib (c_tool_calls c) (?b, ?d) = (x, b', d')"
              by (metis prod_cases3)
            obtain y bW' dW' where tW: "run_tool_calls lib (c_tool_calls c) (?bW, ?dW) = (y, bW', dW')"
              by (metis prod_cases3)
            from run_tool_calls_watched [OF rel, of lib "c_tool_calls c"] t tW obtain fl where
              fl: "y = x" "watch_rel (b', d') (bW', dW') fl" "\<forall>exc. fl = Some exc \<longrightarrow> x = Some exc"
              by auto
            show ?thesis
            proof (cases x)
              case (Some exc)
              then show ?thesis unfolding s sW using False t tW fl by auto
            next
              case None4: None
              with fl(3) have "fl = None" by (cases fl) auto
              with fl(2) have "watch_rel (b', d') (bW', dW') None" by simp
              from Suc.IH [OF this] show ?thesis
                unfolding s sW using False t tW fl(1) None4 by simp
            qed
          qed
        qed
      qed
    qed
  qed
qed

lemma run_watched:
  "observable (run lib (watched_agent agent) user_input (watched_env e)) =
     observable (run lib agent user_input e) \<and>
   inner (ui (snd (snd (run lib (watched_agent agent) user_input (watched_env e))))) =
     ui (snd (snd (run lib agent user_input e))) \<and>
   late (ui (snd (snd (run lib (watched_agent agent) user_input (watched_env e))))) = 0 \<and>
   (\<forall>exc. raised (ui (snd (snd (run lib (watched_agent agent) user_input (watched_env e))))) = Some exc \<longrightarrow>
      fst (run lib agent user_input e) = Inl exc)"
proof -
  let ?a = "agent \<lparr> messages := messages agent @ [user_message user_input] \<rparr>"
  let ?aW = "(watched_agent agent) \<lparr> messages := messages (watched_agent agent) @ [user_message user_input] \<rparr>"
  have "watch_rel (?a, e) (?aW, watched_env e) None"
    by (simp add: watch_rel_def watched_agent_def watched_env_def)
  from run_steps_watched [OF this, of lib "nat (max_steps agent)"] obtain fl where
    fl: "fst (run_steps lib (nat (max_steps agent)) (?aW, watched_env e)) =
           fst (run_steps lib (nat (max_steps agent)) (?a, e))"
        "watch_rel (snd (run_steps lib (nat (max_steps agent)) (?a, e)))
           (snd (run_steps lib (nat (max_steps agent)) (?aW, watched_env e))) fl"
        "\<forall>exc. fl = Some exc \<longrightarrow> fst (run_steps lib (nat (max_steps agent)) (?a, e)) = Inl exc"
    by blast
  have ms: "max_steps (watched_agent agent) = max_steps agent" by (simp add: watched_agent_def)
  show ?thesis
    using fl by (auto simp: run_def ms observable_def watch_rel_def split: prod.splits)
qed

text \<open>
  C9 (as amended). Replacing hooks that return by other hooks that return, on any
  console, changes nothing of a run but the console: the result, the conversation, the
  registry, the world and the completion requests are the same. A hook that raises is
  observed: when the status hook raises at the start of the first round, \<open>run\<close>
  raises that exception, the user message being the only addition. And so for each of
  the four hooks at each of its firings: putting the hooks under observation changes
  nothing of the run nor of their console; no hook is fired after a hook has raised; and
  when a hook has raised an exception, \<open>run\<close> has raised that exception.
\<close>

theorem hooks_observed_only_when_raising:
  "(hooks_return (cb agent) \<and> hooks_return other \<longrightarrow>
      observable (run lib (agent \<lparr> cb := other \<rparr>) user_input (e \<lparr> ui := console \<rparr>)) =
      observable (run lib agent user_input e)) \<and>
   (\<forall>f exc u'.
      on_status (cb agent) = Some f \<and> f ''Thinking...'' (ui e) = (Some exc, u') \<and> 1 \<le> max_steps agent \<longrightarrow>
      run lib agent user_input e =
        (Inl exc, agent \<lparr> messages := messages agent @ [user_message user_input] \<rparr>, e \<lparr> ui := u' \<rparr>)) \<and>
   observable (run lib (watched_agent agent) user_input (watched_env e)) =
     observable (run lib agent user_input e) \<and>
   inner (ui (snd (snd (run lib (watched_agent agent) user_input (watched_env e))))) =
     ui (snd (snd (run lib agent user_input e))) \<and>
   late (ui (snd (snd (run lib (watched_agent agent) user_input (watched_env e))))) = 0 \<and>
   (\<forall>exc. raised (ui (snd (snd (run lib (watched_agent agent) user_input (watched_env e))))) = Some exc \<longrightarrow>
      fst (run lib agent user_input e) = Inl exc)"
proof (intro conjI impI allI)
  assume "hooks_return (cb agent) \<and> hooks_return other"
  then show "observable (run lib (agent \<lparr> cb := other \<rparr>) user_input (e \<lparr> ui := console \<rparr>)) =
             observable (run lib agent user_input e)"
    by (intro returning_hooks_observable) simp_all
next
  fix f exc u'
  assume a: "on_status (cb agent) = Some f \<and> f ''Thinking...'' (ui e) = (Some exc, u') \<and> 1 \<le> max_steps agent"
  show "run lib agent user_input e =
        (Inl exc, agent \<lparr> messages := messages agent @ [user_message user_input] \<rparr>, e \<lparr> ui := u' \<rparr>)"
    using a status_hook_fault [of agent f e exc u' lib user_input] by blast
next
  show "observable (run lib (watched_agent agent) user_input (watched_env e)) =
        observable (run lib agent user_input e)"
    using run_watched [of lib agent user_input e] by blast
next
  show "inner (ui (snd (snd (run lib (watched_agent agent) user_input (watched_env e))))) =
        ui (snd (snd (run lib agent user_input e)))"
    using run_watched [of lib agent user_input e] by blast
next
  show "late (ui (snd (snd (run lib (watched_agent agent) user_input (watched_env e))))) = 0"
    using run_watched [of lib agent user_input e] by blast
next
  fix exc
  assume "raised (ui (snd (snd (run lib (watched_agent agent) user_input (watched_env e))))) = Some exc"
  then show "fst (run lib agent user_input e) = Inl exc"
    using run_watched [of lib agent user_input e] by blast
qed

lemma counting_run:
  "ui (snd (snd (run stub_lib (test_agent fake_model 5 counting) ''read note'' test_env))) = 5"
  "ui (snd (snd (run stub_lib (test_agent fake_model 5 quiet) ''read note'' test_env))) = 0"
  by code_simp+

lemma watched_tool_result_run:
  "raised (ui (snd (snd (run stub_lib (watched_agent (test_agent fake_model 5 failing_tool_result)) ''read note''
                          (watched_env test_env))))) = Some (RuntimeError ''display closed'')"
  "world (snd (snd (run stub_lib (test_agent fake_model 5 failing_tool_result) ''read note'' test_env))) =
     [''read_file'']"
  "map role (messages (fst (snd (run stub_lib (test_agent fake_model 5 failing_tool_result) ''read note''
                                  test_env)))) = [RoleSystem, RoleUser, RoleAssistant]"
  by code_simp+

theorem hooks_observed_only_when_raising_witness:
  "hooks_return quiet \<and> hooks_return counting \<and>
   observable (run stub_lib (test_agent fake_model 5 counting) ''read note'' test_env) =
   observable (run stub_lib (test_agent fake_model 5 quiet) ''read note'' test_env) \<and>
   ui (snd (snd (run stub_lib (test_agent fake_model 5 counting) ''read note'' test_env))) = 5 \<and>
   ui (snd (snd (run stub_lib (test_agent fake_model 5 quiet) ''read note'' test_env))) = 0 \<and>
   fst (run stub_lib (test_agent fake_model 5 failing_status) ''read note'' test_env) =
     Inl (OtherError ''display closed'') \<and>
   raised (ui (snd (snd (run stub_lib (watched_agent (test_agent fake_model 5 failing_tool_result)) ''read note''
                          (watched_env test_env))))) = Some (RuntimeError ''display closed'') \<and>
   fst (run stub_lib (test_agent fake_model 5 failing_tool_result) ''read note'' test_env) =
     Inl (RuntimeError ''display closed'') \<and>
   world (snd (snd (run stub_lib (test_agent fake_model 5 failing_tool_result) ''read note'' test_env))) =
     [''read_file''] \<and>
   map role (messages (fst (snd (run stub_lib (test_agent fake_model 5 failing_tool_result) ''read note''
                                  test_env)))) = [RoleSystem, RoleUser, RoleAssistant]"
proof -
  have e: "test_env \<lparr> ui := 0 \<rparr> = test_env" by (simp add: test_env_def)
  have s: "on_status (cb (test_agent fake_model 5 failing_status)) =
             Some (\<lambda>t u. (Some (OtherError ''display closed''), u))"
    by (simp add: test_agent_fields failing_status_def)
  from hooks_observed_only_when_raising
         [where agent = "test_agent fake_model 5 quiet" and other = counting and lib = stub_lib
            and user_input = "''read note''" and e = test_env and console = 0]
  have a: "observable (run stub_lib (test_agent fake_model 5 counting) ''read note'' test_env) =
           observable (run stub_lib (test_agent fake_model 5 quiet) ''read note'' test_env)"
    by (simp add: fixtures_return test_agent_fields e)
  from hooks_observed_only_when_raising
         [where agent = "test_agent fake_model 5 failing_status" and other = quiet and lib = stub_lib
            and user_input = "''read note''" and e = test_env and console = 0]
  have b: "fst (run stub_lib (test_agent fake_model 5 failing_status) ''read note'' test_env) =
             Inl (OtherError ''display closed'')"
    using s by (simp add: test_agent_fields)
  from hooks_observed_only_when_raising
         [where agent = "test_agent fake_model 5 failing_tool_result" and other = quiet and lib = stub_lib
            and user_input = "''read note''" and e = test_env and console = 0]
       watched_tool_result_run(1)
  have c: "fst (run stub_lib (test_agent fake_model 5 failing_tool_result) ''read note'' test_env) =
             Inl (RuntimeError ''display closed'')"
    by blast
  show ?thesis using a b c watched_tool_result_run counting_run by (simp add: fixtures_return)
qed

text \<open>
  Replacing the status hook by one that raises changes the result of the run from the
  final text to the exception of the hook.
\<close>

theorem hook_fault_propagates_counterexample:
  "fst (run stub_lib (test_agent done_model 5 quiet) ''read note'' test_env) = Inr ''Done: file inspected.'' \<and>
   fst (run stub_lib (test_agent done_model 5 failing_status) ''read note'' test_env)
     = Inl (OtherError ''display closed'') \<and>
   (test_agent done_model 5 quiet) \<lparr> cb := failing_status \<rparr> = test_agent done_model 5 failing_status"
  by (simp add: test_agent_fields) code_simp

end
